theory Spec2Isabelle
  imports Complex_Main "HOL-Library.Sublist"
begin

section \<open>JSON values and the Python operations applied to them\<close>

text \<open>
  Every value that crosses the network boundary is JSON. Python's \<open>None\<close> is \<open>JNull\<close>
  (\<open>json.loads\<close> maps \<open>null\<close> to \<open>None\<close> and back), a \<open>dict\<close> is an association list
  read with \<open>map_of\<close>, and a \<open>float\<close> is a real number: the only float operation the client
  performs is the truth test of \<open>exchange_rate\<close>, which is \<open>x \<noteq> 0\<close>.
\<close>

datatype json =
    JNull
  | JBool bool
  | JNum real
  | JStr string
  | JArr "json list"
  | JObj "(string \<times> json) list"

text \<open>
  The exceptions of the client. \<open>Exception msg j\<close> is the plain \<open>Exception\<close> the client
  raises itself: \<open>msg\<close> is the literal text of its message and \<open>j\<close> the response value that
  the f-string interpolates after it (kept as a value, not rendered). The others are the
  exceptions Python, \<open>json\<close> and pydantic raise on ill-shaped values; \<open>TransportError\<close> is
  anything raised by the transport or by \<open>response.json()\<close>.
\<close>

datatype error =
    Exception string "json option"
  | KeyError string
  | TypeError
  | AttributeError
  | IndexError
  | ValidationError
  | JSONDecodeError
  | TransportError

definition bind_e :: "error + 'a \<Rightarrow> ('a \<Rightarrow> error + 'b) \<Rightarrow> error + 'b" where
  "bind_e m f = (case m of Inl e \<Rightarrow> Inl e | Inr x \<Rightarrow> f x)"

text \<open>\<open>k in j\<close>: key membership on a dict, element membership on a list, substring on a string.\<close>

definition py_contains :: "string \<Rightarrow> json \<Rightarrow> error + bool" where
  "py_contains k j =
     (case j of
        JObj kv \<Rightarrow> Inr (k \<in> set (map fst kv))
      | JArr xs \<Rightarrow> Inr (JStr k \<in> set xs)
      | JStr s \<Rightarrow> Inr (sublist k s)
      | _ \<Rightarrow> Inl TypeError)"

text \<open>\<open>j[k]\<close> with a string key.\<close>

definition py_getitem :: "json \<Rightarrow> string \<Rightarrow> error + json" where
  "py_getitem j k =
     (case j of
        JObj kv \<Rightarrow> (case map_of kv k of None \<Rightarrow> Inl (KeyError k) | Some v \<Rightarrow> Inr v)
      | _ \<Rightarrow> Inl TypeError)"

text \<open>\<open>j.get(k, [])\<close>: only a dict has \<open>get\<close>.\<close>

definition py_get_list :: "json \<Rightarrow> string \<Rightarrow> error + json" where
  "py_get_list j k =
     (case j of
        JObj kv \<Rightarrow> Inr (case map_of kv k of None \<Rightarrow> JArr [] | Some v \<Rightarrow> v)
      | _ \<Rightarrow> Inl AttributeError)"

definition py_len :: "json \<Rightarrow> error + nat" where
  "py_len j =
     (case j of
        JArr xs \<Rightarrow> Inr (length xs)
      | JStr s \<Rightarrow> Inr (length s)
      | JObj kv \<Rightarrow> Inr (length (remdups (map fst kv)))
      | _ \<Rightarrow> Inl TypeError)"

text \<open>\<open>j[0]\<close>.\<close>

definition py_first :: "json \<Rightarrow> error + json" where
  "py_first j =
     (case j of
        JArr xs \<Rightarrow> (case xs of [] \<Rightarrow> Inl IndexError | x # _ \<Rightarrow> Inr x)
      | JStr s \<Rightarrow> (case s of [] \<Rightarrow> Inl IndexError | c # _ \<Rightarrow> Inr (JStr [c]))
      | JObj kv \<Rightarrow> Inl (KeyError ''0'')
      | _ \<Rightarrow> Inl TypeError)"

text \<open>Assignment \<open>d[k] = v\<close> on a dict: an existing key keeps its place, a new one goes last.\<close>

fun dict_set :: "(string \<times> json) list \<Rightarrow> string \<Rightarrow> json \<Rightarrow> (string \<times> json) list" where
  "dict_set [] k v = [(k, v)]"
| "dict_set (p # ps) k v = (if fst p = k then (k, v) # ps else p # dict_set ps k v)"

definition opt_str :: "string option \<Rightarrow> json" where
  "opt_str s = (case s of None \<Rightarrow> JNull | Some x \<Rightarrow> JStr x)"


section \<open>Domain models (models.py)\<close>

text \<open>
  The pydantic models the client touches. The fields \<open>value\<close>, \<open>name\<close> and \<open>Id\<close> carry the
  record's name as a prefix. Validation follows pydantic 2 (the code calls \<open>model_dump\<close>
  and sets \<open>model_config\<close>): a \<open>str\<close> field takes a JSON string only, a field annotated
  \<open>Optional[str]\<close> with no default must be present and may be null, unknown keys are
  ignored.
\<close>

record CurrencyRef =
  CurrencyRef_value :: string
  CurrencyRef_name :: "string option"

record ItemRef =
  ItemRef_value :: string
  ItemRef_name :: "string option"

record TaxRateRef =
  TaxRateRef_value :: string
  TaxRateRef_name :: "string option"

record TaxCodeRef =
  TaxCodeRef_value :: string

record Customer =
  DisplayName :: string
  Customer_Id :: string
  Customer_CurrencyRef :: CurrencyRef

record TaxRateDetail =
  TaxRateDetail_TaxRateRef :: TaxRateRef

record TaxRateList =
  TaxRateList_TaxRateDetail :: "TaxRateDetail list"

record TaxCode =
  TaxCode_Id :: string
  SalesTaxRateList :: TaxRateList

record TaxLineDetail =
  TaxLineDetail_TaxRateRef :: TaxRateRef
  PercentBased :: bool
  TaxPercent :: real
  NetAmountTaxable :: real

record TaxLineModel =
  TaxLineModel_Amount :: real
  TaxLineModel_TaxLineDetail :: TaxLineDetail

record TaxDetail =
  TotalTax :: real
  TaxLine :: "TaxLineModel list option"
  TxnTaxCodeRef :: "TaxCodeRef option"

record SalesItemLineDetail =
  SalesItemLineDetail_ItemRef :: ItemRef
  SalesItemLineDetail_TaxCodeRef :: "TaxCodeRef option"

record InvoiceLine =
  Amount :: real
  Description :: string
  InvoiceLine_SalesItemLineDetail :: SalesItemLineDetail

subsection \<open>Validation of response values\<close>

definition str_field :: "(string \<times> json) list \<Rightarrow> string \<Rightarrow> error + string" where
  "str_field kv k = (case map_of kv k of Some (JStr s) \<Rightarrow> Inr s | _ \<Rightarrow> Inl ValidationError)"

definition opt_str_field :: "(string \<times> json) list \<Rightarrow> string \<Rightarrow> error + string option" where
  "opt_str_field kv k =
     (case map_of kv k of
        Some (JStr s) \<Rightarrow> Inr (Some s)
      | Some JNull \<Rightarrow> Inr None
      | _ \<Rightarrow> Inl ValidationError)"

definition obj_field :: "(string \<times> json) list \<Rightarrow> string \<Rightarrow> error + (string \<times> json) list" where
  "obj_field kv k = (case map_of kv k of Some (JObj o') \<Rightarrow> Inr o' | _ \<Rightarrow> Inl ValidationError)"

definition CurrencyRef_validate :: "(string \<times> json) list \<Rightarrow> error + CurrencyRef" where
  "CurrencyRef_validate kv =
     bind_e (str_field kv ''value'') (\<lambda>v.
     bind_e (opt_str_field kv ''name'') (\<lambda>n.
     Inr \<lparr>CurrencyRef_value = v, CurrencyRef_name = n\<rparr>))"

definition TaxRateRef_validate :: "(string \<times> json) list \<Rightarrow> error + TaxRateRef" where
  "TaxRateRef_validate kv =
     bind_e (str_field kv ''value'') (\<lambda>v.
     bind_e (opt_str_field kv ''name'') (\<lambda>n.
     Inr \<lparr>TaxRateRef_value = v, TaxRateRef_name = n\<rparr>))"

text \<open>\<open>ItemRef(value=v, name=n)\<close> on two values read from a response.\<close>

definition ItemRef_init :: "json \<Rightarrow> json \<Rightarrow> error + ItemRef" where
  "ItemRef_init v n =
     (case v of
        JStr s \<Rightarrow>
          (case n of
             JStr t \<Rightarrow> Inr \<lparr>ItemRef_value = s, ItemRef_name = Some t\<rparr>
           | JNull \<Rightarrow> Inr \<lparr>ItemRef_value = s, ItemRef_name = None\<rparr>
           | _ \<Rightarrow> Inl ValidationError)
      | _ \<Rightarrow> Inl ValidationError)"

text \<open>\<open>Customer(**j)\<close>: unpacking needs a dict, then the fields are validated.\<close>

definition Customer_init :: "json \<Rightarrow> error + Customer" where
  "Customer_init j =
     (case j of
        JObj kv \<Rightarrow>
          bind_e (str_field kv ''DisplayName'') (\<lambda>d.
          bind_e (str_field kv ''Id'') (\<lambda>i.
          bind_e (obj_field kv ''CurrencyRef'') (\<lambda>c.
          bind_e (CurrencyRef_validate c) (\<lambda>cr.
          Inr \<lparr>DisplayName = d, Customer_Id = i, Customer_CurrencyRef = cr\<rparr>))))
      | _ \<Rightarrow> Inl TypeError)"

fun TaxRateDetail_list_validate :: "json list \<Rightarrow> error + TaxRateDetail list" where
  "TaxRateDetail_list_validate [] = Inr []"
| "TaxRateDetail_list_validate (x # xs) =
     (case x of
        JObj kv \<Rightarrow>
          bind_e (obj_field kv ''TaxRateRef'') (\<lambda>r.
          bind_e (TaxRateRef_validate r) (\<lambda>ref.
          bind_e (TaxRateDetail_list_validate xs) (\<lambda>ds.
          Inr (\<lparr>TaxRateDetail_TaxRateRef = ref\<rparr> # ds))))
      | _ \<Rightarrow> Inl ValidationError)"

definition TaxRateList_validate :: "(string \<times> json) list \<Rightarrow> error + TaxRateList" where
  "TaxRateList_validate kv =
     (case map_of kv ''TaxRateDetail'' of
        Some (JArr xs) \<Rightarrow>
          bind_e (TaxRateDetail_list_validate xs) (\<lambda>ds.
          Inr \<lparr>TaxRateList_TaxRateDetail = ds\<rparr>)
      | _ \<Rightarrow> Inl ValidationError)"

definition TaxCode_init :: "json \<Rightarrow> error + TaxCode" where
  "TaxCode_init j =
     (case j of
        JObj kv \<Rightarrow>
          bind_e (str_field kv ''Id'') (\<lambda>i.
          bind_e (obj_field kv ''SalesTaxRateList'') (\<lambda>l.
          bind_e (TaxRateList_validate l) (\<lambda>rl.
          Inr \<lparr>TaxCode_Id = i, SalesTaxRateList = rl\<rparr>)))
      | _ \<Rightarrow> Inl TypeError)"

subsection \<open>Serialisation (\<open>model_dump\<close>): one key per field, in declaration order\<close>

definition ItemRef_model_dump :: "ItemRef \<Rightarrow> json" where
  "ItemRef_model_dump r =
     JObj [(''value'', JStr (ItemRef_value r)), (''name'', opt_str (ItemRef_name r))]"

definition TaxRateRef_model_dump :: "TaxRateRef \<Rightarrow> json" where
  "TaxRateRef_model_dump r =
     JObj [(''value'', JStr (TaxRateRef_value r)), (''name'', opt_str (TaxRateRef_name r))]"

definition TaxCodeRef_model_dump :: "TaxCodeRef option \<Rightarrow> json" where
  "TaxCodeRef_model_dump r =
     (case r of None \<Rightarrow> JNull | Some t \<Rightarrow> JObj [(''value'', JStr (TaxCodeRef_value t))])"

definition SalesItemLineDetail_model_dump :: "SalesItemLineDetail \<Rightarrow> json" where
  "SalesItemLineDetail_model_dump d =
     JObj [(''ItemRef'', ItemRef_model_dump (SalesItemLineDetail_ItemRef d)),
           (''TaxCodeRef'', TaxCodeRef_model_dump (SalesItemLineDetail_TaxCodeRef d))]"

definition InvoiceLine_model_dump :: "InvoiceLine \<Rightarrow> json" where
  "InvoiceLine_model_dump l =
     JObj [(''Amount'', JNum (Amount l)),
           (''Description'', JStr (Description l)),
           (''SalesItemLineDetail'',
              SalesItemLineDetail_model_dump (InvoiceLine_SalesItemLineDetail l)),
           (''DetailType'', JStr ''SalesItemLineDetail'')]"

definition TaxLineDetail_model_dump :: "TaxLineDetail \<Rightarrow> json" where
  "TaxLineDetail_model_dump d =
     JObj [(''TaxRateRef'', TaxRateRef_model_dump (TaxLineDetail_TaxRateRef d)),
           (''PercentBased'', JBool (PercentBased d)),
           (''TaxPercent'', JNum (TaxPercent d)),
           (''NetAmountTaxable'', JNum (NetAmountTaxable d))]"

definition TaxLineModel_model_dump :: "TaxLineModel \<Rightarrow> json" where
  "TaxLineModel_model_dump t =
     JObj [(''DetailType'', JStr ''TaxLineDetail''),
           (''Amount'', JNum (TaxLineModel_Amount t)),
           (''TaxLineDetail'', TaxLineDetail_model_dump (TaxLineModel_TaxLineDetail t))]"

definition TaxDetail_model_dump :: "TaxDetail \<Rightarrow> json" where
  "TaxDetail_model_dump t =
     JObj [(''TotalTax'', JNum (TotalTax t)),
           (''TaxLine'',
              (case TaxLine t of None \<Rightarrow> JNull | Some ls \<Rightarrow> JArr (map TaxLineModel_model_dump ls))),
           (''TxnTaxCodeRef'', TaxCodeRef_model_dump (TxnTaxCodeRef t))]"


section \<open>Dates\<close>

text \<open>
  A \<open>datetime\<close> with the fields \<open>strftime\<close> reads. A \<open>datetime\<close> object is always true in a
  Python condition, so \<open>if d\<close> on an \<open>Optional[datetime]\<close> tests \<open>d is not None\<close>.
\<close>

record datetime =
  dt_year :: nat
  dt_month :: nat
  dt_day :: nat
  dt_hour :: nat
  dt_minute :: nat
  dt_second :: nat

text \<open>
  The values a Python \<open>datetime\<close> can hold: the constructor raises \<open>ValueError\<close> outside
  the years 1 to 9999, the months 1 to 12, the days of the month in that year, and the
  hours, minutes and seconds of a day.
\<close>

definition is_leap :: "nat \<Rightarrow> bool" where
  "is_leap y = (if y mod 400 = 0 then True else if y mod 100 = 0 then False else y mod 4 = 0)"

definition days_in_month :: "nat \<Rightarrow> nat \<Rightarrow> nat" where
  "days_in_month y m =
     (if m = 2 then (if is_leap y then 29 else 28)
      else if m = 4 \<or> m = 6 \<or> m = 9 \<or> m = 11 then 30
      else 31)"

definition valid_datetime :: "datetime \<Rightarrow> bool" where
  "valid_datetime d =
     (1 \<le> dt_year d \<and> dt_year d \<le> 9999 \<and> 1 \<le> dt_month d \<and> dt_month d \<le> 12 \<and>
      1 \<le> dt_day d \<and> dt_day d \<le> days_in_month (dt_year d) (dt_month d) \<and>
      dt_hour d < 24 \<and> dt_minute d < 60 \<and> dt_second d < 60)"

text \<open>A natural number in decimal, with no padding.\<close>

fun dec :: "nat \<Rightarrow> string" where
  "dec n = (if n < 10 then [''0123456789'' ! n] else dec (n div 10) @ [''0123456789'' ! (n mod 10)])"

declare dec.simps [simp del]

definition zero_pad :: "nat \<Rightarrow> string \<Rightarrow> string" where
  "zero_pad w s = replicate (w - length s) CHR ''0'' @ s"

text \<open>
  \<open>strftime("%Y-%m-%d")\<close>, as CPython 3.11 computes it through the C library of Linux:
  \<open>%Y\<close> is the year in decimal with no padding, so a year below 1000 has fewer than four
  digits (\<open>datetime(999, 1, 5)\<close> gives \<open>999-01-05\<close>); \<open>%m\<close> and \<open>%d\<close> are the month and the
  day on two digits. The time of day is not read.
\<close>

definition strftime_ymd :: "datetime \<Rightarrow> string" where
  "strftime_ymd d =
     dec (dt_year d) @ ''-'' @ zero_pad 2 (dec (dt_month d)) @ ''-'' @
     zero_pad 2 (dec (dt_day d))"

definition opt_date :: "datetime option \<Rightarrow> json" where
  "opt_date d = (case d of None \<Rightarrow> JNull | Some x \<Rightarrow> JStr (strftime_ymd x))"


section \<open>The client (QBO.py)\<close>

text \<open>
  The client holds the two authentication fields. The world outside it is the remote
  service's state together with the list of requests handed to the transport, in order.
  The transport \<open>qbo_request\<close> and the service behind it are a parameter \<open>tr\<close>: given the
  remote state and a request it returns the new remote state and the value of
  \<open>response.json()\<close>, or the exception raised by the call or by decoding the response.
  No operation assigns to the client but \<open>set_token\<close>, so the operations read the client
  and return the result with the new world.
\<close>

record QBO =
  realm_id :: "string option"
  access_token :: "string option"

text \<open>
  Modelled from the spec: the class \<open>Token\<close> of \<open>stripe2qbo.qbo.auth\<close> is not part of the
  source; \<open>set_token\<close> reads its realm identifier and its access token. The type
  \<open>QBOCurrency\<close> is not declared in the source either: a currency is a string.
\<close>

record Token =
  Token_realm_id :: string
  Token_access_token :: string

record request =
  path :: string
  http_method :: string
  body :: "json option"
  req_access_token :: string
  req_realm_id :: string

record 'r world =
  remote :: 'r
  sent :: "request list"

type_synonym 'r transport = "'r \<Rightarrow> request \<Rightarrow> 'r \<times> (error + json)"

text \<open>A fresh client: both class attributes are \<open>None\<close>.\<close>

definition QBO_new :: QBO where
  "QBO_new = \<lparr>realm_id = None, access_token = None\<rparr>"

definition set_token :: "QBO \<Rightarrow> Token \<Rightarrow> QBO" where
  "set_token c t = c\<lparr>realm_id := Some (Token_realm_id t), access_token := Some (Token_access_token t)\<rparr>"

text \<open>\<open>QBO._request\<close>.\<close>

definition QBO_request ::
  "'r transport \<Rightarrow> QBO \<Rightarrow> string \<Rightarrow> string \<Rightarrow> json option \<Rightarrow> 'r world \<Rightarrow> (error + json) \<times> 'r world"
where
  "QBO_request tr c p m b w =
     (case access_token c of
        None \<Rightarrow> (Inl (Exception ''QBO token not set'' None), w)
      | Some t \<Rightarrow>
          (case realm_id c of
             None \<Rightarrow> (Inl (Exception ''QBO token not set'' None), w)
           | Some r \<Rightarrow>
               (let rq = \<lparr>path = p, http_method = m, body = b, req_access_token = t, req_realm_id = r\<rparr>;
                    (s, resp) = tr (remote w) rq
                in (resp, \<lparr>remote = s, sent = sent w @ [rq]\<rparr>))))"

text \<open>\<open>QBO._query\<close>.\<close>

definition QBO_query ::
  "'r transport \<Rightarrow> QBO \<Rightarrow> string \<Rightarrow> 'r world \<Rightarrow> (error + json) \<times> 'r world"
where
  "QBO_query tr c query w =
     (case QBO_request tr c (''/query?query='' @ query) ''GET'' None w of
        (Inl e, w') \<Rightarrow> (Inl e, w')
      | (Inr j, w') \<Rightarrow>
          (case py_contains ''QueryResponse'' j of
             Inl e \<Rightarrow> (Inl e, w')
           | Inr found \<Rightarrow>
               if \<not> found then (Inl (Exception ''Query failed: '' (Some j)), w')
               else (Inr j, w')))"

text \<open>The list \<open>response.json()["QueryResponse"].get(entity, [])\<close> and its length.\<close>

definition query_entities :: "json \<Rightarrow> string \<Rightarrow> error + json \<times> nat" where
  "query_entities j entity =
     bind_e (py_getitem j ''QueryResponse'') (\<lambda>qr.
     bind_e (py_get_list qr entity) (\<lambda>xs.
     bind_e (py_len xs) (\<lambda>n. Inr (xs, n))))"

text \<open>A value between single quotes, as the f-strings of the queries write it.\<close>

definition quoted :: "string \<Rightarrow> string" where
  "quoted s = CHR 0x27 # s @ [CHR 0x27]"

text \<open>A failed step of an operation ends it; otherwise the pure rest runs on the response.\<close>

definition after :: "(error + 'a) \<times> 'w \<Rightarrow> ('a \<Rightarrow> error + 'b) \<Rightarrow> (error + 'b) \<times> 'w" where
  "after m f = (case m of (Inl e, w) \<Rightarrow> (Inl e, w) | (Inr x, w) \<Rightarrow> (f x, w))"

definition get_tax_code ::
  "'r transport \<Rightarrow> QBO \<Rightarrow> string \<Rightarrow> 'r world \<Rightarrow> (error + TaxCode option) \<times> 'r world"
where
  "get_tax_code tr c tax_code_id w =
     after (QBO_query tr c (''select * from TaxCode where Id = '' @ quoted tax_code_id) w)
       (\<lambda>j. bind_e (query_entities j ''TaxCode'') (\<lambda>(tax_codes, n).
          if n = 0 then Inr None
          else bind_e (py_first tax_codes) (\<lambda>x.
               bind_e (TaxCode_init x) (\<lambda>t. Inr (Some t)))))"

text \<open>
  \<open>get_customer_by_name\<close> returns the first element of the response's list as it is (a
  raw JSON value, not a validated \<open>Customer\<close>), or \<open>None\<close>, which is \<open>JNull\<close>.
\<close>

definition get_customer_by_name ::
  "'r transport \<Rightarrow> QBO \<Rightarrow> string \<Rightarrow> 'r world \<Rightarrow> (error + json) \<times> 'r world"
where
  "get_customer_by_name tr c customer_name w =
     after (QBO_query tr c
              (''select * from Customer where DisplayName = '' @ quoted customer_name) w)
       (\<lambda>j. bind_e (query_entities j ''Customer'') (\<lambda>(customers, n).
          if n = 0 then Inr JNull else py_first customers))"

definition create_customer ::
  "'r transport \<Rightarrow> QBO \<Rightarrow> string \<Rightarrow> string \<Rightarrow> 'r world \<Rightarrow> (error + Customer) \<times> 'r world"
where
  "create_customer tr c customer_name currency w =
     after (QBO_request tr c ''customer'' ''POST''
              (Some (JObj [(''DisplayName'', JStr customer_name),
                           (''CurrencyRef'', JObj [(''value'', JStr currency)])])) w)
       (\<lambda>j. bind_e (py_contains ''Customer'' j) (\<lambda>found.
          if \<not> found then Inl (Exception ''Error creating customer: '' (Some j))
          else bind_e (py_getitem j ''Customer'') Customer_init))"

text \<open>
  What \<open>get_or_create_customer\<close> returns: the raw value of the lookup when it found one,
  a validated \<open>Customer\<close> when it created one.
\<close>

datatype customer_value = RawCustomer json | ModelCustomer Customer

definition get_or_create_customer ::
  "'r transport \<Rightarrow> QBO \<Rightarrow> string \<Rightarrow> string \<Rightarrow> 'r world \<Rightarrow> (error + customer_value) \<times> 'r world"
where
  "get_or_create_customer tr c customer_name currency w =
     (case get_customer_by_name tr c customer_name w of
        (Inl e, w1) \<Rightarrow> (Inl e, w1)
      | (Inr customer, w1) \<Rightarrow>
          if customer = JNull then
            (case create_customer tr c customer_name currency w1 of
               (Inl e, w2) \<Rightarrow> (Inl e, w2)
             | (Inr created, w2) \<Rightarrow>
                 if CurrencyRef_value (Customer_CurrencyRef created) \<noteq> currency then
                   after (create_customer tr c (customer_name @ '' ('' @ currency @ '')'')
                            currency w2)
                     (\<lambda>cu. Inr (ModelCustomer cu))
                 else (Inr (ModelCustomer created), w2))
          else (Inr (RawCustomer customer), w1))"

definition get_item_by_name ::
  "'r transport \<Rightarrow> QBO \<Rightarrow> string \<Rightarrow> 'r world \<Rightarrow> (error + ItemRef option) \<times> 'r world"
where
  "get_item_by_name tr c item_name w =
     after (QBO_query tr c (''select * from Item where Name = '' @ quoted item_name) w)
       (\<lambda>j. bind_e (query_entities j ''Item'') (\<lambda>(items, n).
          if n = 0 then Inr None
          else bind_e (py_first items) (\<lambda>it.
               bind_e (py_getitem it ''Id'') (\<lambda>i.
               bind_e (py_getitem it ''Name'') (\<lambda>nm.
               bind_e (ItemRef_init i nm) (\<lambda>r. Inr (Some r)))))))"

definition create_item ::
  "'r transport \<Rightarrow> QBO \<Rightarrow> string \<Rightarrow> string \<Rightarrow> 'r world \<Rightarrow> (error + ItemRef) \<times> 'r world"
where
  "create_item tr c item_name account_id w =
     after (QBO_request tr c ''item'' ''POST''
              (Some (JObj [(''Name'', JStr item_name),
                           (''Type'', JStr ''Service''),
                           (''IncomeAccountRef'', JObj [(''value'', JStr account_id)])])) w)
       (\<lambda>j. bind_e (py_getitem j ''Item'') (\<lambda>it.
             bind_e (py_getitem it ''Id'') (\<lambda>i.
             bind_e (py_getitem it ''Name'') (\<lambda>nm.
             ItemRef_init i nm))))"

definition get_or_create_item ::
  "'r transport \<Rightarrow> QBO \<Rightarrow> string \<Rightarrow> string \<Rightarrow> 'r world \<Rightarrow> (error + ItemRef) \<times> 'r world"
where
  "get_or_create_item tr c item_name account_id w =
     (case get_item_by_name tr c item_name w of
        (Inl e, w1) \<Rightarrow> (Inl e, w1)
      | (Inr None, w1) \<Rightarrow> create_item tr c item_name account_id w1
      | (Inr (Some item), w1) \<Rightarrow> (Inr item, w1))"

text \<open>The account operations return the \<open>Id\<close> of the response unvalidated: a JSON value.\<close>

definition create_account ::
  "'r transport \<Rightarrow> QBO \<Rightarrow> string \<Rightarrow> string \<Rightarrow> 'r world \<Rightarrow> (error + json) \<times> 'r world"
where
  "create_account tr c account_name account_type w =
     after (QBO_request tr c ''/account'' ''POST''
              (Some (JObj [(''Name'', JStr account_name),
                           (''AccountType'', JStr account_type)])) w)
       (\<lambda>j. bind_e (py_getitem j ''Account'') (\<lambda>a. py_getitem a ''Id''))"

definition get_account_id ::
  "'r transport \<Rightarrow> QBO \<Rightarrow> string \<Rightarrow> 'r world \<Rightarrow> (error + json) \<times> 'r world"
where
  "get_account_id tr c account_name w =
     after (QBO_query tr c (''select * from Account where Name = '' @ quoted account_name) w)
       (\<lambda>j. bind_e (query_entities j ''Account'') (\<lambda>(accounts, n).
          if n = 0 then Inr JNull
          else if n > 1 then
            Inl (Exception (''Multiple accounts found with '' @ account_name) None)
          else bind_e (py_first accounts) (\<lambda>a. py_getitem a ''Id'')))"

definition get_or_create_account ::
  "'r transport \<Rightarrow> QBO \<Rightarrow> string \<Rightarrow> string \<Rightarrow> 'r world \<Rightarrow> (error + json) \<times> 'r world"
where
  "get_or_create_account tr c account_name account_type w =
     (case get_account_id tr c account_name w of
        (Inl e, w1) \<Rightarrow> (Inl e, w1)
      | (Inr acount_id, w1) \<Rightarrow>
          if acount_id \<noteq> JNull then (Inr acount_id, w1)
          else create_account tr c account_name account_type w1)"

text \<open>
  The body of \<open>create_invoice\<close>: the dict literal, then the two conditional assignments.
\<close>

definition create_invoice_body ::
  "string \<Rightarrow> InvoiceLine list \<Rightarrow> datetime option \<Rightarrow> string option \<Rightarrow> string option \<Rightarrow>
   datetime option \<Rightarrow> datetime option \<Rightarrow> TaxDetail option \<Rightarrow> string option \<Rightarrow>
   (string \<times> json) list"
where
  "create_invoice_body customer_id lines created_date currency private_note due_date txn_date
       tax_detail inv_number =
     (let body0 =
            [(''CustomerRef'', JObj [(''value'', JStr customer_id)]),
             (''CurrencyRef'', JObj [(''value'', opt_str currency)]),
             (''Line'', JArr (map InvoiceLine_model_dump lines)),
             (''TxnDate'', opt_date txn_date),
             (''DueDate'', opt_date due_date),
             (''TxnTaxDetail'',
                (case tax_detail of None \<Rightarrow> JNull | Some t \<Rightarrow> TaxDetail_model_dump t)),
             (''PrivateNote'', opt_str private_note),
             (''DocNumber'', opt_str inv_number)];
          body1 =
            (case due_date of
               None \<Rightarrow> body0
             | Some d \<Rightarrow> dict_set body0 ''DueDate'' (JStr (strftime_ymd d)));
          body2 =
            (case created_date of
               None \<Rightarrow> body1
             | Some d \<Rightarrow> dict_set body1 ''TxnDate'' (JStr (strftime_ymd d)))
      in body2)"

definition create_invoice ::
  "'r transport \<Rightarrow> QBO \<Rightarrow> string \<Rightarrow> InvoiceLine list \<Rightarrow> datetime option \<Rightarrow> string option \<Rightarrow>
   string option \<Rightarrow> datetime option \<Rightarrow> datetime option \<Rightarrow> TaxDetail option \<Rightarrow> string option \<Rightarrow>
   'r world \<Rightarrow> (error + json) \<times> 'r world"
where
  "create_invoice tr c customer_id lines created_date currency private_note due_date txn_date
       tax_detail inv_number w =
     after (QBO_request tr c ''invoice'' ''POST''
              (Some (JObj (create_invoice_body customer_id lines created_date currency
                             private_note due_date txn_date tax_detail inv_number))) w)
       (\<lambda>j. bind_e (py_getitem j ''Invoice'') (\<lambda>i. py_getitem i ''Id''))"

text \<open>
  The body of \<open>create_invoice_payment\<close>. \<open>exchange_rate or "1"\<close> takes the string when the
  rate is \<open>None\<close> or zero; \<open>if invoice_id\<close> is false on \<open>None\<close> and on the empty string.
\<close>

definition create_invoice_payment_body ::
  "string option \<Rightarrow> string \<Rightarrow> real \<Rightarrow> datetime \<Rightarrow> string \<Rightarrow> string \<Rightarrow> real option \<Rightarrow> string \<Rightarrow>
   (string \<times> json) list"
where
  "create_invoice_payment_body invoice_id customer_id amount date qbo_account_id currency
       exchange_rate private_note =
     (let body0 =
            [(''TotalAmt'', JNum amount),
             (''CustomerRef'', JObj [(''value'', JStr customer_id)]),
             (''TxnDate'', JStr (strftime_ymd date)),
             (''DepositToAccountRef'', JObj [(''value'', JStr qbo_account_id)]),
             (''PrivateNote'', JStr private_note),
             (''CurrencyRef'', JObj [(''value'', JStr currency)]),
             (''ExchangeRate'',
                (case exchange_rate of
                   None \<Rightarrow> JStr ''1''
                 | Some x \<Rightarrow> if x = 0 then JStr ''1'' else JNum x))]
      in (case invoice_id of
            None \<Rightarrow> body0
          | Some i \<Rightarrow>
              if i = [] then body0
              else dict_set body0 ''Line''
                     (JArr [JObj [(''Amount'', JNum amount),
                                  (''LinkedTxn'',
                                     JArr [JObj [(''TxnId'', JStr i),
                                                 (''TxnType'', JStr ''Invoice'')]])]])))"

definition create_invoice_payment ::
  "'r transport \<Rightarrow> QBO \<Rightarrow> string option \<Rightarrow> string \<Rightarrow> real \<Rightarrow> datetime \<Rightarrow> string \<Rightarrow> string \<Rightarrow>
   real option \<Rightarrow> string \<Rightarrow> 'r world \<Rightarrow> (error + json) \<times> 'r world"
where
  "create_invoice_payment tr c invoice_id customer_id amount date qbo_account_id currency
       exchange_rate private_note w =
     after (QBO_request tr c ''/payment'' ''POST''
              (Some (JObj (create_invoice_payment_body invoice_id customer_id amount date
                             qbo_account_id currency exchange_rate private_note))) w)
       (\<lambda>j. bind_e (py_getitem j ''Payment'') (\<lambda>p. py_getitem p ''Id''))"

definition create_expense ::
  "'r transport \<Rightarrow> QBO \<Rightarrow> real \<Rightarrow> datetime \<Rightarrow> string \<Rightarrow> string \<Rightarrow> string \<Rightarrow> string \<Rightarrow>
   string option \<Rightarrow> 'r world \<Rightarrow> (error + json) \<times> 'r world"
where
  "create_expense tr c amount date bank_account_id vendor_id expense_account_id private_note
       description w =
     after (QBO_request tr c ''/purchase'' ''POST''
              (Some (JObj
                 [(''TotalAmt'', JNum amount),
                  (''AccountRef'', JObj [(''value'', JStr bank_account_id)]),
                  (''PaymentType'', JStr ''Check''),
                  (''Line'',
                     JArr [JObj [(''Amount'', JNum amount),
                                 (''DetailType'', JStr ''AccountBasedExpenseLineDetail''),
                                 (''AccountBasedExpenseLineDetail'',
                                    JObj [(''AccountRef'',
                                             JObj [(''value'', JStr expense_account_id)])]),
                                 (''Description'', opt_str description)]]),
                  (''EntityRef'', JObj [(''value'', JStr vendor_id)]),
                  (''TxnDate'', JStr (strftime_ymd date)),
                  (''PrivateNote'', JStr private_note)])) w)
       (\<lambda>j. bind_e (py_getitem j ''Purchase'') (\<lambda>p. py_getitem p ''Id''))"

definition create_transfer ::
  "'r transport \<Rightarrow> QBO \<Rightarrow> real \<Rightarrow> datetime \<Rightarrow> string \<Rightarrow> string \<Rightarrow> string \<Rightarrow>
   'r world \<Rightarrow> (error + json) \<times> 'r world"
where
  "create_transfer tr c amount date source_account_id destination_account_id private_note w =
     after (QBO_request tr c ''/transfer'' ''POST''
              (Some (JObj
                 [(''Amount'', JNum amount),
                  (''FromAccountRef'', JObj [(''value'', JStr source_account_id)]),
                  (''ToAccountRef'', JObj [(''value'', JStr destination_account_id)]),
                  (''TxnDate'', JStr (strftime_ymd date)),
                  (''PrivateNote'', JStr private_note)])) w)
       (\<lambda>j. bind_e (py_getitem j ''Transfer'') (\<lambda>t. py_getitem t ''Id''))"


section \<open>Settings (settings.py)\<close>

text \<open>\<open>s.split("_")\<close>: the pieces between the separators, empty pieces kept.\<close>

fun split_on :: "char \<Rightarrow> string \<Rightarrow> string list" where
  "split_on sep [] = [[]]"
| "split_on sep (x # xs) =
     (if x = sep then [] # split_on sep xs
      else (case split_on sep xs of [] \<Rightarrow> [[x]] | w # ws \<Rightarrow> (x # w) # ws))"

definition upper_char :: "char \<Rightarrow> char" where
  "upper_char ch =
     (let n = (of_char ch :: nat) in if 97 \<le> n \<and> n \<le> 122 then char_of (n - 32) else ch)"

definition lower_char :: "char \<Rightarrow> char" where
  "lower_char ch =
     (let n = (of_char ch :: nat) in if 65 \<le> n \<and> n \<le> 90 then char_of (n + 32) else ch)"

text \<open>\<open>word.capitalize()\<close>: the first character in upper case, the rest in lower case.\<close>

definition capitalize :: "string \<Rightarrow> string" where
  "capitalize s = (case s of [] \<Rightarrow> [] | ch # cs \<Rightarrow> upper_char ch # map lower_char cs)"

text \<open>\<open>_snake_to_camel\<close>.\<close>

definition snake_to_camel :: "string \<Rightarrow> string" where
  "snake_to_camel s =
     (case split_on CHR ''_'' s of
        [] \<Rightarrow> []
      | w # ws \<Rightarrow> w @ concat (map capitalize ws))"

text \<open>
  The class \<open>Settings\<close>: \<open>stripe_fee_account_id\<close> is annotated twice and is one field, at
  the place of its first annotation.
\<close>

record Settings =
  stripe_clearing_account_id :: string
  stripe_payout_account_id :: string
  stripe_fee_account_id :: string
  stripe_vendor_id :: string
  default_income_account_id :: "string option"
  default_tax_code_id :: string
  exempt_tax_code_id :: string

text \<open>
  \<open>settings.model_dump()\<close>, called with no argument, serialises by field name: the alias
  generator of \<open>model_config\<close> is applied on output only under \<open>by_alias=True\<close>.
\<close>

definition Settings_model_dump :: "Settings \<Rightarrow> json" where
  "Settings_model_dump s =
     JObj [(''stripe_clearing_account_id'', JStr (stripe_clearing_account_id s)),
           (''stripe_payout_account_id'', JStr (stripe_payout_account_id s)),
           (''stripe_fee_account_id'', JStr (stripe_fee_account_id s)),
           (''stripe_vendor_id'', JStr (stripe_vendor_id s)),
           (''default_income_account_id'', opt_str (default_income_account_id s)),
           (''default_tax_code_id'', JStr (default_tax_code_id s)),
           (''exempt_tax_code_id'', JStr (exempt_tax_code_id s))]"

text \<open>
  Reading a field on input: by its alias \<open>_snake_to_camel(field)\<close>, and, as
  \<open>populate_by_name\<close> is set, by the field name when the alias is absent.
\<close>

definition settings_input :: "(string \<times> json) list \<Rightarrow> string \<Rightarrow> json option" where
  "settings_input kv field =
     (case map_of kv (snake_to_camel field) of
        Some v \<Rightarrow> Some v
      | None \<Rightarrow> map_of kv field)"

definition settings_str :: "(string \<times> json) list \<Rightarrow> string \<Rightarrow> error + string" where
  "settings_str kv field =
     (case settings_input kv field of Some (JStr s) \<Rightarrow> Inr s | _ \<Rightarrow> Inl ValidationError)"

definition settings_opt_str :: "(string \<times> json) list \<Rightarrow> string \<Rightarrow> error + string option" where
  "settings_opt_str kv field =
     (case settings_input kv field of
        None \<Rightarrow> Inr None
      | Some JNull \<Rightarrow> Inr None
      | Some (JStr s) \<Rightarrow> Inr (Some s)
      | _ \<Rightarrow> Inl ValidationError)"

text \<open>\<open>Settings(**j)\<close>.\<close>

definition Settings_init :: "json \<Rightarrow> error + Settings" where
  "Settings_init j =
     (case j of
        JObj kv \<Rightarrow>
          bind_e (settings_str kv ''stripe_clearing_account_id'') (\<lambda>a.
          bind_e (settings_str kv ''stripe_payout_account_id'') (\<lambda>b.
          bind_e (settings_str kv ''stripe_fee_account_id'') (\<lambda>f.
          bind_e (settings_str kv ''stripe_vendor_id'') (\<lambda>v.
          bind_e (settings_opt_str kv ''default_income_account_id'') (\<lambda>i.
          bind_e (settings_str kv ''default_tax_code_id'') (\<lambda>d.
          bind_e (settings_str kv ''exempt_tax_code_id'') (\<lambda>e.
          Inr \<lparr>stripe_clearing_account_id = a, stripe_payout_account_id = b,
               stripe_fee_account_id = f, stripe_vendor_id = v,
               default_income_account_id = i, default_tax_code_id = d,
               exempt_tax_code_id = e\<rparr>)))))))
      | _ \<Rightarrow> Inl TypeError)"

text \<open>
  The file system: a path has no file, a file holding the text of a JSON value, or a file
  holding something else. The layout of the text (\<open>indent=4\<close>) is not modelled.
\<close>

datatype file_content = JsonFile json | OtherFile

type_synonym files = "string \<rightharpoonup> file_content"

definition load_from_file :: "files \<Rightarrow> string \<Rightarrow> error + Settings option" where
  "load_from_file fs p =
     (case fs p of
        None \<Rightarrow> Inr None
      | Some OtherFile \<Rightarrow> Inl JSONDecodeError
      | Some (JsonFile j) \<Rightarrow> bind_e (Settings_init j) (\<lambda>s. Inr (Some s)))"

definition save :: "Settings \<Rightarrow> string \<Rightarrow> files \<Rightarrow> files" where
  "save settings p fs = fs(p \<mapsto> JsonFile (Settings_model_dump settings))"


section \<open>A reference accounting service\<close>

text \<open>
  Modelled from the spec: the accounting service and the transport \<open>qbo_request\<close> in front
  of it, which are not part of the source. The service keeps the customers, items and
  accounts it was asked to create. A query \<open>select * from E where F = 'v'\<close> answers
  \<open>{"QueryResponse": {"E": [...]}}\<close> with the stored entities of kind \<open>E\<close> whose field
  \<open>F\<close> is \<open>v\<close>, oldest first, and \<open>{"QueryResponse": {}}\<close> when there is none; a create
  request stores the entity under the next identifier and answers \<open>{"<Entity>": {...}}\<close>;
  anything else answers a fault. It instantiates the transport parameter of the client.
\<close>

record service =
  customers :: "Customer list"
  items :: "(string \<times> string) list"
  accounts :: "(string \<times> string) list"
  next_id :: nat

text \<open>Modelled from the spec: the JSON the service sends for a customer, an item, an account.\<close>

definition Customer_json :: "Customer \<Rightarrow> json" where
  "Customer_json cu =
     JObj [(''DisplayName'', JStr (DisplayName cu)),
           (''Id'', JStr (Customer_Id cu)),
           (''CurrencyRef'',
              JObj [(''value'', JStr (CurrencyRef_value (Customer_CurrencyRef cu))),
                    (''name'', opt_str (CurrencyRef_name (Customer_CurrencyRef cu)))])]"

definition named_json :: "string \<times> string \<Rightarrow> json" where
  "named_json e = JObj [(''Id'', JStr (fst e)), (''Name'', JStr (snd e))]"

text \<open>
  Modelled from the spec: a kind with no match has no key in the \<open>QueryResponse\<close>; a request
  the service does not understand is answered with a fault object.
\<close>

definition entity_list :: "string \<Rightarrow> json list \<Rightarrow> (string \<times> json) list" where
  "entity_list entity xs = (if xs = [] then [] else [(entity, JArr xs)])"

definition fault :: json where
  "fault = JObj [(''Fault'', JObj [(''type'', JStr ''ValidationFault'')])]"

definition endpoint :: "string \<Rightarrow> string" where
  "endpoint p = (case p of [] \<Rightarrow> [] | ch # cs \<Rightarrow> if ch = CHR ''/'' then cs else p)"

fun strip_prefix_opt :: "string \<Rightarrow> string \<Rightarrow> string option" where
  "strip_prefix_opt [] ys = Some ys"
| "strip_prefix_opt (x # xs) [] = None"
| "strip_prefix_opt (x # xs) (y # ys) = (if x = y then strip_prefix_opt xs ys else None)"

text \<open>
  Modelled from the spec: the answer to a query. An entity matches when the query is the
  text the client writes for its name.
\<close>

definition service_query :: "service \<Rightarrow> string \<Rightarrow> json" where
  "service_query s q =
     JObj [(''QueryResponse'', JObj (
        entity_list ''Customer''
          (map Customer_json
             (filter (\<lambda>cu. q = ''select * from Customer where DisplayName = '' @
                                quoted (DisplayName cu)) (customers s))) @
        entity_list ''Item''
          (map named_json
             (filter (\<lambda>e. q = ''select * from Item where Name = '' @ quoted (snd e))
                (items s))) @
        entity_list ''Account''
          (map named_json
             (filter (\<lambda>e. q = ''select * from Account where Name = '' @ quoted (snd e))
                (accounts s)))))]"

text \<open>
  Modelled from the spec: the answer to a create request on an endpoint, and the new state.
  The service does not refuse a name it already has.
\<close>

definition service_create :: "service \<Rightarrow> string \<Rightarrow> (string \<times> json) list \<Rightarrow> service \<times> json" where
  "service_create s kind b =
     (let i = dec (next_id s) in
      if kind = ''customer'' then
        (case (map_of b ''DisplayName'', map_of b ''CurrencyRef'') of
           (Some (JStr n), Some (JObj cr)) \<Rightarrow>
             (case map_of cr ''value'' of
                Some (JStr cur) \<Rightarrow>
                  (let cu = \<lparr>DisplayName = n, Customer_Id = i,
                             Customer_CurrencyRef =
                               \<lparr>CurrencyRef_value = cur, CurrencyRef_name = Some cur\<rparr>\<rparr>
                   in (s\<lparr>customers := customers s @ [cu], next_id := Suc (next_id s)\<rparr>,
                       JObj [(''Customer'', Customer_json cu)]))
              | _ \<Rightarrow> (s, fault))
         | _ \<Rightarrow> (s, fault))
      else if kind = ''item'' then
        (case map_of b ''Name'' of
           Some (JStr n) \<Rightarrow>
             (s\<lparr>items := items s @ [(i, n)], next_id := Suc (next_id s)\<rparr>,
              JObj [(''Item'', named_json (i, n))])
         | _ \<Rightarrow> (s, fault))
      else if kind = ''account'' then
        (case map_of b ''Name'' of
           Some (JStr n) \<Rightarrow>
             (s\<lparr>accounts := accounts s @ [(i, n)], next_id := Suc (next_id s)\<rparr>,
              JObj [(''Account'', named_json (i, n))])
         | _ \<Rightarrow> (s, fault))
      else if kind = ''invoice'' then
        (s\<lparr>next_id := Suc (next_id s)\<rparr>, JObj [(''Invoice'', JObj [(''Id'', JStr i)])])
      else if kind = ''payment'' then
        (s\<lparr>next_id := Suc (next_id s)\<rparr>, JObj [(''Payment'', JObj [(''Id'', JStr i)])])
      else if kind = ''purchase'' then
        (s\<lparr>next_id := Suc (next_id s)\<rparr>, JObj [(''Purchase'', JObj [(''Id'', JStr i)])])
      else if kind = ''transfer'' then
        (s\<lparr>next_id := Suc (next_id s)\<rparr>, JObj [(''Transfer'', JObj [(''Id'', JStr i)])])
      else (s, fault))"

text \<open>
  Modelled from the spec: \<open>qbo_request\<close> with the service behind it. Every call succeeds
  at the transport level.
\<close>

definition service_request :: "service transport" where
  "service_request s rq =
     (if http_method rq = ''GET'' then
        (case strip_prefix_opt ''/query?query='' (path rq) of
           Some q \<Rightarrow> (s, Inr (service_query s q))
         | None \<Rightarrow> (s, Inr fault))
      else if http_method rq = ''POST'' then
        (case body rq of
           Some (JObj b) \<Rightarrow>
             (let (s', j) = service_create s (endpoint (path rq)) b in (s', Inr j))
         | _ \<Rightarrow> (s, Inr fault))
      else (s, Inr fault))"


section \<open>Observations used in the statements\<close>


text \<open>
  A transport whose call succeeds with the response \<open>j\<close>, whatever it does to the remote
  state: the situation of a create operation whose transport call went through.
\<close>

definition responding :: "('r \<Rightarrow> request \<Rightarrow> 'r) \<Rightarrow> json \<Rightarrow> 'r transport" where
  "responding f j = (\<lambda>s rq. (f s rq, Inr j))"


section \<open>Authentication: no request before the token is set\<close>

lemma QBO_request_unset:
  "access_token c = None \<or> realm_id c = None \<Longrightarrow>
   QBO_request tr c p m b w = (Inl (Exception ''QBO token not set'' None), w)"
  by (auto simp: QBO_request_def split: option.splits)

lemma QBO_query_unset:
  "access_token c = None \<or> realm_id c = None \<Longrightarrow>
   QBO_query tr c q w = (Inl (Exception ''QBO token not set'' None), w)"
  by (simp add: QBO_query_def QBO_request_unset)

text \<open>After \<open>set_token\<close> both fields are set: the client of the statements below.\<close>

lemma set_token_fields:
  "set_token c tok =
     \<lparr>realm_id = Some (Token_realm_id tok), access_token = Some (Token_access_token tok)\<rparr>"
  by (simp add: set_token_def)

lemma QBO_request_set:
  "QBO_request tr \<lparr>realm_id = Some r, access_token = Some t\<rparr> p m b w =
     (snd (tr (remote w)
             \<lparr>path = p, http_method = m, body = b, req_access_token = t, req_realm_id = r\<rparr>),
      \<lparr>remote = fst (tr (remote w)
             \<lparr>path = p, http_method = m, body = b, req_access_token = t, req_realm_id = r\<rparr>),
       sent = sent w @
             [\<lparr>path = p, http_method = m, body = b, req_access_token = t, req_realm_id = r\<rparr>]\<rparr>)"
  by (simp add: QBO_request_def Let_def split: prod.splits)

text \<open>
  Claim C5. Every public operation of the client, called while the access token or the
  realm id is unset, fails with the exception "QBO token not set" and leaves the world
  as it was: the remote state is untouched and no request was handed to the transport.
  The operations take the client as a value and return none, so the client's fields are
  unchanged as well.
\<close>

theorem token_not_set:
  assumes "access_token c = None \<or> realm_id c = None"
  shows "get_tax_code tr c tax_code_id w = (Inl (Exception ''QBO token not set'' None), w)
     \<and> get_customer_by_name tr c customer_name w
         = (Inl (Exception ''QBO token not set'' None), w)
     \<and> create_customer tr c customer_name currency w
         = (Inl (Exception ''QBO token not set'' None), w)
     \<and> get_or_create_customer tr c customer_name currency w
         = (Inl (Exception ''QBO token not set'' None), w)
     \<and> get_item_by_name tr c item_name w = (Inl (Exception ''QBO token not set'' None), w)
     \<and> create_item tr c item_name account_id w
         = (Inl (Exception ''QBO token not set'' None), w)
     \<and> get_or_create_item tr c item_name account_id w
         = (Inl (Exception ''QBO token not set'' None), w)
     \<and> create_account tr c account_name account_type w
         = (Inl (Exception ''QBO token not set'' None), w)
     \<and> get_account_id tr c account_name w = (Inl (Exception ''QBO token not set'' None), w)
     \<and> get_or_create_account tr c account_name account_type w
         = (Inl (Exception ''QBO token not set'' None), w)
     \<and> create_invoice tr c customer_id lines created_date cur private_note due_date txn_date
           tax_detail inv_number w
         = (Inl (Exception ''QBO token not set'' None), w)
     \<and> create_invoice_payment tr c invoice_id customer_id amount date qbo_account_id currency
           exchange_rate note w
         = (Inl (Exception ''QBO token not set'' None), w)
     \<and> create_expense tr c amount date bank_account_id vendor_id expense_account_id note
           description w
         = (Inl (Exception ''QBO token not set'' None), w)
     \<and> create_transfer tr c amount date source_account_id destination_account_id note w
         = (Inl (Exception ''QBO token not set'' None), w)"
  using assms
  by (simp add: QBO_request_unset QBO_query_unset after_def get_tax_code_def
      get_customer_by_name_def create_customer_def get_or_create_customer_def
      get_item_by_name_def create_item_def get_or_create_item_def create_account_def
      get_account_id_def get_or_create_account_def create_invoice_def
      create_invoice_payment_def create_expense_def create_transfer_def)

theorem token_not_set_witness:
  "(access_token QBO_new = None \<or> realm_id QBO_new = None)
   \<and> get_or_create_customer service_request QBO_new ''Acme Corp'' ''USD''
         \<lparr>remote = \<lparr>customers = [], items = [], accounts = [], next_id = 1\<rparr>, sent = []\<rparr>
       = (Inl (Exception ''QBO token not set'' None),
          \<lparr>remote = \<lparr>customers = [], items = [], accounts = [], next_id = 1\<rparr>, sent = []\<rparr>)
   \<and> create_account service_request QBO_new ''Stripe Fees'' ''Expense''
         \<lparr>remote = \<lparr>customers = [], items = [], accounts = [], next_id = 1\<rparr>, sent = []\<rparr>
       = (Inl (Exception ''QBO token not set'' None),
          \<lparr>remote = \<lparr>customers = [], items = [], accounts = [], next_id = 1\<rparr>, sent = []\<rparr>)"
  using token_not_set [of QBO_new service_request]
  by (simp add: QBO_new_def)


section \<open>Request bodies of invoices and payments\<close>

lemma sent_after: "sent (snd (after m f)) = sent (snd m)"
  by (simp add: after_def split: prod.splits sum.splits)

lemma sent_create_invoice:
  "sent (snd (create_invoice tr \<lparr>realm_id = Some r, access_token = Some t\<rparr> customer_id lines
        created_date currency private_note due_date txn_date tax_detail inv_number w)) =
   sent w @ [\<lparr>path = ''invoice'', http_method = ''POST'',
              body = Some (JObj (create_invoice_body customer_id lines created_date currency
                                   private_note due_date txn_date tax_detail inv_number)),
              req_access_token = t, req_realm_id = r\<rparr>]"
  by (simp add: create_invoice_def sent_after QBO_request_set)

lemma sent_create_invoice_payment:
  "sent (snd (create_invoice_payment tr \<lparr>realm_id = Some r, access_token = Some t\<rparr> invoice_id
        customer_id amount date qbo_account_id currency exchange_rate private_note w)) =
   sent w @ [\<lparr>path = ''/payment'', http_method = ''POST'',
              body = Some (JObj (create_invoice_payment_body invoice_id customer_id amount date
                                   qbo_account_id currency exchange_rate private_note)),
              req_access_token = t, req_realm_id = r\<rparr>]"
  by (simp add: create_invoice_payment_def sent_after QBO_request_set)

text \<open>The two bodies in closed form, the conditional assignments resolved.\<close>

lemma create_invoice_body_eq:
  "create_invoice_body customer_id lines created_date currency private_note due_date txn_date
       tax_detail inv_number =
     [(''CustomerRef'', JObj [(''value'', JStr customer_id)]),
      (''CurrencyRef'', JObj [(''value'', opt_str currency)]),
      (''Line'', JArr (map InvoiceLine_model_dump lines)),
      (''TxnDate'',
         (case created_date of None \<Rightarrow> opt_date txn_date | Some d \<Rightarrow> JStr (strftime_ymd d))),
      (''DueDate'', opt_date due_date),
      (''TxnTaxDetail'',
         (case tax_detail of None \<Rightarrow> JNull | Some t \<Rightarrow> TaxDetail_model_dump t)),
      (''PrivateNote'', opt_str private_note),
      (''DocNumber'', opt_str inv_number)]"
  by (simp add: create_invoice_body_def Let_def opt_date_def split: option.splits)

lemma create_invoice_payment_body_eq:
  "create_invoice_payment_body invoice_id customer_id amount date qbo_account_id currency
       exchange_rate private_note =
     [(''TotalAmt'', JNum amount),
      (''CustomerRef'', JObj [(''value'', JStr customer_id)]),
      (''TxnDate'', JStr (strftime_ymd date)),
      (''DepositToAccountRef'', JObj [(''value'', JStr qbo_account_id)]),
      (''PrivateNote'', JStr private_note),
      (''CurrencyRef'', JObj [(''value'', JStr currency)]),
      (''ExchangeRate'',
         (case exchange_rate of
            None \<Rightarrow> JStr ''1''
          | Some x \<Rightarrow> if x = 0 then JStr ''1'' else JNum x))] @
     (case invoice_id of
        None \<Rightarrow> []
      | Some i \<Rightarrow>
          if i = [] then []
          else [(''Line'',
                 JArr [JObj [(''Amount'', JNum amount),
                             (''LinkedTxn'',
                                JArr [JObj [(''TxnId'', JStr i),
                                            (''TxnType'', JStr ''Invoice'')]])]])])"
  by (simp add: create_invoice_payment_body_def Let_def split: option.splits)

lemma strftime_ymd_example:
  "strftime_ymd \<lparr>dt_year = 2024, dt_month = 3, dt_day = 7, dt_hour = 18, dt_minute = 30,
                  dt_second = 0\<rparr> = ''2024-03-07''"
  by code_simp

text \<open>
  Claim C3, as stated: when \<open>due_date\<close>, \<open>tax_detail\<close>, \<open>private_note\<close> and \<open>inv_number\<close> are
  omitted, the keys \<open>DueDate\<close>, \<open>TxnTaxDetail\<close>, \<open>PrivateNote\<close> and \<open>DocNumber\<close> are absent from
  the request body. The code does otherwise: for an invoice of one line with every
  optional argument omitted, the body handed to the transport holds the four keys (and
  \<open>TxnDate\<close>) with the value null.
\<close>

theorem create_invoice_omitted_fields_null:
  "map body (sent (snd (create_invoice service_request
       \<lparr>realm_id = Some ''4620816365'', access_token = Some ''tok''\<rparr>
       ''58''
       [\<lparr>Amount = 25, Description = ''Subscription'',
         InvoiceLine_SalesItemLineDetail =
           \<lparr>SalesItemLineDetail_ItemRef = \<lparr>ItemRef_value = ''7'', ItemRef_name = None\<rparr>,
            SalesItemLineDetail_TaxCodeRef = None\<rparr>\<rparr>]
       None (Some ''USD'') None None None None None
       \<lparr>remote = \<lparr>customers = [], items = [], accounts = [], next_id = 1\<rparr>, sent = []\<rparr>)))
   = [Some (JObj
       [(''CustomerRef'', JObj [(''value'', JStr ''58'')]),
        (''CurrencyRef'', JObj [(''value'', JStr ''USD'')]),
        (''Line'',
           JArr [JObj [(''Amount'', JNum 25),
                       (''Description'', JStr ''Subscription''),
                       (''SalesItemLineDetail'',
                          JObj [(''ItemRef'', JObj [(''value'', JStr ''7''), (''name'', JNull)]),
                                (''TaxCodeRef'', JNull)]),
                       (''DetailType'', JStr ''SalesItemLineDetail'')]]),
        (''TxnDate'', JNull),
        (''DueDate'', JNull),
        (''TxnTaxDetail'', JNull),
        (''PrivateNote'', JNull),
        (''DocNumber'', JNull)])]"
  by (simp add: sent_create_invoice create_invoice_body_eq opt_date_def opt_str_def
      InvoiceLine_model_dump_def SalesItemLineDetail_model_dump_def ItemRef_model_dump_def
      TaxCodeRef_model_dump_def)

text \<open>
  Claim C3, amended. Every call of \<open>create_invoice\<close> with the token set hands the
  transport one POST request to \<open>invoice\<close> whose body always has the same eight keys, in
  the same order. \<open>DueDate\<close>, \<open>TxnTaxDetail\<close>, \<open>PrivateNote\<close> and \<open>DocNumber\<close> hold null when
  the argument is omitted and the formatted date, the serialised tax detail or the string
  when it is given. \<open>Line\<close> holds the serialised invoice lines one for one in the order
  supplied, each with its amount.
\<close>

theorem create_invoice_request_body:
  "\<exists>b. sent (snd (create_invoice tr \<lparr>realm_id = Some r, access_token = Some t\<rparr> customer_id lines
          created_date currency private_note due_date txn_date tax_detail inv_number w)) =
        sent w @ [\<lparr>path = ''invoice'', http_method = ''POST'', body = Some (JObj b),
                   req_access_token = t, req_realm_id = r\<rparr>]
      \<and> map fst b = [''CustomerRef'', ''CurrencyRef'', ''Line'', ''TxnDate'', ''DueDate'',
                      ''TxnTaxDetail'', ''PrivateNote'', ''DocNumber'']
      \<and> map_of b ''DueDate'' =
           Some (case due_date of None \<Rightarrow> JNull | Some d \<Rightarrow> JStr (strftime_ymd d))
      \<and> map_of b ''TxnTaxDetail'' =
           Some (case tax_detail of None \<Rightarrow> JNull | Some x \<Rightarrow> TaxDetail_model_dump x)
      \<and> map_of b ''PrivateNote'' =
           Some (case private_note of None \<Rightarrow> JNull | Some s \<Rightarrow> JStr s)
      \<and> map_of b ''DocNumber'' =
           Some (case inv_number of None \<Rightarrow> JNull | Some s \<Rightarrow> JStr s)
      \<and> map_of b ''Line'' = Some (JArr (map InvoiceLine_model_dump lines))
      \<and> map (\<lambda>l. py_getitem l ''Amount'') (map InvoiceLine_model_dump lines) =
           map (\<lambda>l. Inr (JNum (Amount l))) lines"
  by (simp add: sent_create_invoice create_invoice_body_eq opt_date_def opt_str_def
      InvoiceLine_model_dump_def py_getitem_def)

text \<open>The digits \<open>strftime_ymd\<close> writes, for the dates a \<open>datetime\<close> can hold.\<close>

lemma dec_1: "n < 10 \<Longrightarrow> dec n = [''0123456789'' ! n]"
  by (subst dec.simps) simp

lemma dec_2: "10 \<le> n \<Longrightarrow> n < 100 \<Longrightarrow> dec n = [''0123456789'' ! (n div 10), ''0123456789'' ! (n mod 10)]"
  by (subst dec.simps) (simp add: dec_1)

lemma dec_3: "100 \<le> n \<Longrightarrow> n < 1000 \<Longrightarrow>
  dec n = [''0123456789'' ! (n div 100), ''0123456789'' ! (n div 10 mod 10), ''0123456789'' ! (n mod 10)]"
  by (subst dec.simps) (simp add: dec_2 div_mult2_eq [symmetric])

lemma dec_4: "1000 \<le> n \<Longrightarrow> n < 10000 \<Longrightarrow>
  dec n = [''0123456789'' ! (n div 1000), ''0123456789'' ! (n div 100 mod 10),
           ''0123456789'' ! (n div 10 mod 10), ''0123456789'' ! (n mod 10)]"
  by (subst dec.simps) (simp add: dec_3 div_mult2_eq [symmetric])

lemma two_digits: "n < 100 \<Longrightarrow>
  zero_pad 2 (dec n) = [''0123456789'' ! (n div 10), ''0123456789'' ! (n mod 10)]"
  by (cases "n < 10") (simp_all add: zero_pad_def dec_1 dec_2 numeral_2_eq_2)

lemma days_in_month_le: "days_in_month y m \<le> 31"
  by (simp add: days_in_month_def)

lemma strftime_ymd_digits:
  assumes "valid_datetime d" and "1000 \<le> dt_year d"
  shows "strftime_ymd d =
     [''0123456789'' ! (dt_year d div 1000), ''0123456789'' ! (dt_year d div 100 mod 10),
      ''0123456789'' ! (dt_year d div 10 mod 10), ''0123456789'' ! (dt_year d mod 10),
      CHR ''-'',
      ''0123456789'' ! (dt_month d div 10), ''0123456789'' ! (dt_month d mod 10),
      CHR ''-'',
      ''0123456789'' ! (dt_day d div 10), ''0123456789'' ! (dt_day d mod 10)]"
proof -
  have y: "dt_year d < 10000" and m: "dt_month d < 100"
    using assms(1) by (simp_all add: valid_datetime_def)
  have "dt_day d \<le> days_in_month (dt_year d) (dt_month d)"
    using assms(1) by (simp add: valid_datetime_def)
  then have dd: "dt_day d < 100"
    using days_in_month_le [of "dt_year d" "dt_month d"] by linarith
  show ?thesis
    by (simp add: strftime_ymd_def dec_4 [OF assms(2) y] two_digits [OF m] two_digits [OF dd])
qed

text \<open>
  Claim C7, as stated: in every call with both dates supplied, \<open>TxnDate\<close> is
  \<open>created_date\<close> formatted as YYYY-MM-DD. The override holds, the format does not for a
  year below 1000: for the \<open>created_date\<close> 5 January 999, a value a \<open>datetime\<close> can hold,
  the body has the \<open>TxnDate\<close> "999-01-05", whose year has three digits.
\<close>

theorem create_invoice_TxnDate_short_year:
  "valid_datetime \<lparr>dt_year = 999, dt_month = 1, dt_day = 5, dt_hour = 9, dt_minute = 0,
                    dt_second = 0\<rparr>
   \<and> map body (sent (snd (create_invoice service_request
         \<lparr>realm_id = Some ''4620816365'', access_token = Some ''tok''\<rparr>
         ''58'' []
         (Some \<lparr>dt_year = 999, dt_month = 1, dt_day = 5, dt_hour = 9, dt_minute = 0,
                dt_second = 0\<rparr>)
         (Some ''USD'') None None
         (Some \<lparr>dt_year = 2024, dt_month = 3, dt_day = 7, dt_hour = 18, dt_minute = 30,
                dt_second = 0\<rparr>)
         None None
         \<lparr>remote = \<lparr>customers = [], items = [], accounts = [], next_id = 1\<rparr>, sent = []\<rparr>)))
     = [Some (JObj
         [(''CustomerRef'', JObj [(''value'', JStr ''58'')]),
          (''CurrencyRef'', JObj [(''value'', JStr ''USD'')]),
          (''Line'', JArr []),
          (''TxnDate'', JStr ''999-01-05''),
          (''DueDate'', JNull),
          (''TxnTaxDetail'', JNull),
          (''PrivateNote'', JNull),
          (''DocNumber'', JNull)])]
   \<and> ''999-01-05'' \<noteq> ''0999-01-05''"
proof -
  have "strftime_ymd \<lparr>dt_year = 999, dt_month = 1, dt_day = 5, dt_hour = 9, dt_minute = 0,
                       dt_second = 0\<rparr> = ''999-01-05''"
    by code_simp
  then show ?thesis
    by (simp add: sent_create_invoice create_invoice_body_eq opt_date_def opt_str_def
        valid_datetime_def days_in_month_def)
qed

text \<open>
  Claim C7, amended. When both \<open>txn_date\<close> and \<open>created_date\<close> are supplied, the \<open>TxnDate\<close>
  of the request body is \<open>created_date\<close> as \<open>strftime("%Y-%m-%d")\<close> writes it, whatever
  \<open>txn_date\<close> is; when only \<open>txn_date\<close> is supplied (\<open>created_date\<close> is \<open>None\<close>), it is
  \<open>txn_date\<close> so written. For a date whose year is at least 1000 that text is
  YYYY-MM-DD: the four digits of the year, a hyphen, the two digits of the month, a hyphen,
  the two digits of the day, and nothing of the time of day.
\<close>

theorem create_invoice_TxnDate:
  "(\<exists>b. sent (snd (create_invoice tr \<lparr>realm_id = Some r, access_token = Some t\<rparr> customer_id
             lines (Some created) currency private_note due_date (Some txn) tax_detail
             inv_number w)) =
         sent w @ [\<lparr>path = ''invoice'', http_method = ''POST'', body = Some (JObj b),
                    req_access_token = t, req_realm_id = r\<rparr>]
       \<and> map_of b ''TxnDate'' = Some (JStr (strftime_ymd created))
       \<and> (valid_datetime created \<and> 1000 \<le> dt_year created \<longrightarrow>
            map_of b ''TxnDate'' = Some (JStr
              [''0123456789'' ! (dt_year created div 1000),
               ''0123456789'' ! (dt_year created div 100 mod 10),
               ''0123456789'' ! (dt_year created div 10 mod 10),
               ''0123456789'' ! (dt_year created mod 10),
               CHR ''-'',
               ''0123456789'' ! (dt_month created div 10),
               ''0123456789'' ! (dt_month created mod 10),
               CHR ''-'',
               ''0123456789'' ! (dt_day created div 10),
               ''0123456789'' ! (dt_day created mod 10)])))
   \<and> (\<exists>b. sent (snd (create_invoice tr \<lparr>realm_id = Some r, access_token = Some t\<rparr> customer_id
             lines None currency private_note due_date (Some txn) tax_detail inv_number w)) =
         sent w @ [\<lparr>path = ''invoice'', http_method = ''POST'', body = Some (JObj b),
                    req_access_token = t, req_realm_id = r\<rparr>]
       \<and> map_of b ''TxnDate'' = Some (JStr (strftime_ymd txn))
       \<and> (valid_datetime txn \<and> 1000 \<le> dt_year txn \<longrightarrow>
            map_of b ''TxnDate'' = Some (JStr
              [''0123456789'' ! (dt_year txn div 1000),
               ''0123456789'' ! (dt_year txn div 100 mod 10),
               ''0123456789'' ! (dt_year txn div 10 mod 10),
               ''0123456789'' ! (dt_year txn mod 10),
               CHR ''-'',
               ''0123456789'' ! (dt_month txn div 10),
               ''0123456789'' ! (dt_month txn mod 10),
               CHR ''-'',
               ''0123456789'' ! (dt_day txn div 10),
               ''0123456789'' ! (dt_day txn mod 10)])))"
proof -
  let ?b1 = "create_invoice_body customer_id lines (Some created) currency private_note
               due_date (Some txn) tax_detail inv_number"
  let ?b2 = "create_invoice_body customer_id lines None currency private_note
               due_date (Some txn) tax_detail inv_number"
  have a1: "map_of ?b1 ''TxnDate'' = Some (JStr (strftime_ymd created))"
    by (simp add: create_invoice_body_eq)
  have a2: "map_of ?b2 ''TxnDate'' = Some (JStr (strftime_ymd txn))"
    by (simp add: create_invoice_body_eq opt_date_def)
  have c1: "valid_datetime created \<and> 1000 \<le> dt_year created \<longrightarrow>
            map_of ?b1 ''TxnDate'' = Some (JStr
              [''0123456789'' ! (dt_year created div 1000),
               ''0123456789'' ! (dt_year created div 100 mod 10),
               ''0123456789'' ! (dt_year created div 10 mod 10),
               ''0123456789'' ! (dt_year created mod 10),
               CHR ''-'',
               ''0123456789'' ! (dt_month created div 10),
               ''0123456789'' ! (dt_month created mod 10),
               CHR ''-'',
               ''0123456789'' ! (dt_day created div 10),
               ''0123456789'' ! (dt_day created mod 10)])"
  proof (intro impI, elim conjE)
    assume "valid_datetime created" and "1000 \<le> dt_year created"
    then show "map_of ?b1 ''TxnDate'' = Some (JStr
              [''0123456789'' ! (dt_year created div 1000),
               ''0123456789'' ! (dt_year created div 100 mod 10),
               ''0123456789'' ! (dt_year created div 10 mod 10),
               ''0123456789'' ! (dt_year created mod 10),
               CHR ''-'',
               ''0123456789'' ! (dt_month created div 10),
               ''0123456789'' ! (dt_month created mod 10),
               CHR ''-'',
               ''0123456789'' ! (dt_day created div 10),
               ''0123456789'' ! (dt_day created mod 10)])"
      unfolding a1 by (simp only: strftime_ymd_digits)
  qed
  have c2: "valid_datetime txn \<and> 1000 \<le> dt_year txn \<longrightarrow>
            map_of ?b2 ''TxnDate'' = Some (JStr
              [''0123456789'' ! (dt_year txn div 1000),
               ''0123456789'' ! (dt_year txn div 100 mod 10),
               ''0123456789'' ! (dt_year txn div 10 mod 10),
               ''0123456789'' ! (dt_year txn mod 10),
               CHR ''-'',
               ''0123456789'' ! (dt_month txn div 10),
               ''0123456789'' ! (dt_month txn mod 10),
               CHR ''-'',
               ''0123456789'' ! (dt_day txn div 10),
               ''0123456789'' ! (dt_day txn mod 10)])"
  proof (intro impI, elim conjE)
    assume "valid_datetime txn" and "1000 \<le> dt_year txn"
    then show "map_of ?b2 ''TxnDate'' = Some (JStr
              [''0123456789'' ! (dt_year txn div 1000),
               ''0123456789'' ! (dt_year txn div 100 mod 10),
               ''0123456789'' ! (dt_year txn div 10 mod 10),
               ''0123456789'' ! (dt_year txn mod 10),
               CHR ''-'',
               ''0123456789'' ! (dt_month txn div 10),
               ''0123456789'' ! (dt_month txn mod 10),
               CHR ''-'',
               ''0123456789'' ! (dt_day txn div 10),
               ''0123456789'' ! (dt_day txn mod 10)])"
      unfolding a2 by (simp only: strftime_ymd_digits)
  qed
  show ?thesis
    by (intro conjI exI [of _ ?b1] exI [of _ ?b2]) (rule sent_create_invoice a1 a2 c1 c2)+
qed

theorem create_invoice_TxnDate_witness:
  "valid_datetime \<lparr>dt_year = 2024, dt_month = 3, dt_day = 7, dt_hour = 18, dt_minute = 30,
                    dt_second = 0\<rparr>
   \<and> (1000::nat) \<le> 2024
   \<and> (\<exists>b. sent (snd (create_invoice service_request
             \<lparr>realm_id = Some ''4620816365'', access_token = Some ''tok''\<rparr> ''58'' []
             (Some \<lparr>dt_year = 2024, dt_month = 3, dt_day = 7, dt_hour = 18, dt_minute = 30,
                    dt_second = 0\<rparr>)
             (Some ''USD'') None None
             (Some \<lparr>dt_year = 2024, dt_month = 2, dt_day = 29, dt_hour = 0, dt_minute = 0,
                    dt_second = 0\<rparr>)
             None None
             \<lparr>remote = \<lparr>customers = [], items = [], accounts = [], next_id = 1\<rparr>,
               sent = []\<rparr>)) =
         [\<lparr>path = ''invoice'', http_method = ''POST'', body = Some (JObj b),
           req_access_token = ''tok'', req_realm_id = ''4620816365''\<rparr>]
       \<and> map_of b ''TxnDate'' = Some (JStr ''2024-03-07''))"
proof -
  have h: "valid_datetime \<lparr>dt_year = 2024, dt_month = 3, dt_day = 7, dt_hour = 18,
                            dt_minute = 30, dt_second = 0\<rparr>"
    by (simp add: valid_datetime_def days_in_month_def)
  from create_invoice_TxnDate
         [of service_request "''4620816365''" "''tok''" "''58''" "[]"
             "\<lparr>dt_year = 2024, dt_month = 3, dt_day = 7, dt_hour = 18, dt_minute = 30,
               dt_second = 0\<rparr>"
             "Some ''USD''" None None
             "\<lparr>dt_year = 2024, dt_month = 2, dt_day = 29, dt_hour = 0, dt_minute = 0,
               dt_second = 0\<rparr>"
             None None
             "\<lparr>remote = \<lparr>customers = [], items = [], accounts = [], next_id = 1\<rparr>,
               sent = []\<rparr>",
          THEN conjunct1]
  obtain b where
    s: "sent (snd (create_invoice service_request
             \<lparr>realm_id = Some ''4620816365'', access_token = Some ''tok''\<rparr> ''58'' []
             (Some \<lparr>dt_year = 2024, dt_month = 3, dt_day = 7, dt_hour = 18, dt_minute = 30,
                    dt_second = 0\<rparr>)
             (Some ''USD'') None None
             (Some \<lparr>dt_year = 2024, dt_month = 2, dt_day = 29, dt_hour = 0, dt_minute = 0,
                    dt_second = 0\<rparr>)
             None None
             \<lparr>remote = \<lparr>customers = [], items = [], accounts = [], next_id = 1\<rparr>,
               sent = []\<rparr>)) =
         [\<lparr>path = ''invoice'', http_method = ''POST'', body = Some (JObj b),
           req_access_token = ''tok'', req_realm_id = ''4620816365''\<rparr>]"
    and f: "valid_datetime \<lparr>dt_year = 2024, dt_month = 3, dt_day = 7, dt_hour = 18,
                            dt_minute = 30, dt_second = 0\<rparr> \<and> (1000::nat) \<le> 2024 \<longrightarrow>
            map_of b ''TxnDate'' = Some (JStr ''2024-03-07'')"
    by auto
  from f h have "map_of b ''TxnDate'' = Some (JStr ''2024-03-07'')" by simp
  with s h show ?thesis by auto
qed

text \<open>
  Claim C8, as stated: the payment line is attached exactly when an invoice id is
  supplied. The code tests the truth of \<open>invoice_id\<close>, so a supplied invoice id that is
  the empty string attaches no line: the body below has no \<open>Line\<close> key.
\<close>

theorem create_invoice_payment_empty_invoice_id:
  "map body (sent (snd (create_invoice_payment service_request
       \<lparr>realm_id = Some ''4620816365'', access_token = Some ''tok''\<rparr>
       (Some []) ''58'' 25
       \<lparr>dt_year = 2024, dt_month = 3, dt_day = 7, dt_hour = 18, dt_minute = 30,
         dt_second = 0\<rparr>
       ''35'' ''USD'' None []
       \<lparr>remote = \<lparr>customers = [], items = [], accounts = [], next_id = 1\<rparr>, sent = []\<rparr>)))
   = [Some (JObj
       [(''TotalAmt'', JNum 25),
        (''CustomerRef'', JObj [(''value'', JStr ''58'')]),
        (''TxnDate'', JStr ''2024-03-07''),
        (''DepositToAccountRef'', JObj [(''value'', JStr ''35'')]),
        (''PrivateNote'', JStr []),
        (''CurrencyRef'', JObj [(''value'', JStr ''USD'')]),
        (''ExchangeRate'', JStr ''1'')])]"
  by (simp add: sent_create_invoice_payment create_invoice_payment_body_eq
      strftime_ymd_example)

text \<open>
  Claim C8, amended. When \<open>exchange_rate\<close> is not supplied, the \<open>ExchangeRate\<close> of the
  request body is the default, the string "1". The body has a \<open>Line\<close> key exactly when an
  invoice id is supplied and is not the empty string, and then it is a single line with
  the payment amount and one linked transaction of type \<open>Invoice\<close> with that id.
\<close>

theorem create_invoice_payment_default_rate_and_line:
  "(\<exists>b. sent (snd (create_invoice_payment tr \<lparr>realm_id = Some r, access_token = Some t\<rparr>
             invoice_id customer_id amount date qbo_account_id currency None private_note w)) =
         sent w @ [\<lparr>path = ''/payment'', http_method = ''POST'', body = Some (JObj b),
                    req_access_token = t, req_realm_id = r\<rparr>]
       \<and> map_of b ''ExchangeRate'' = Some (JStr ''1''))
   \<and> (\<exists>b. sent (snd (create_invoice_payment tr \<lparr>realm_id = Some r, access_token = Some t\<rparr>
             invoice_id customer_id amount date qbo_account_id currency exchange_rate
             private_note w)) =
         sent w @ [\<lparr>path = ''/payment'', http_method = ''POST'', body = Some (JObj b),
                    req_access_token = t, req_realm_id = r\<rparr>]
       \<and> map_of b ''Line'' =
           (case invoice_id of
              None \<Rightarrow> None
            | Some i \<Rightarrow>
                if i = [] then None
                else Some (JArr [JObj [(''Amount'', JNum amount),
                                       (''LinkedTxn'',
                                          JArr [JObj [(''TxnId'', JStr i),
                                                      (''TxnType'', JStr ''Invoice'')]])]])))"
  by (simp add: sent_create_invoice_payment create_invoice_payment_body_eq
      split: option.splits)

text \<open>
  Claim C10. A supplied \<open>exchange_rate\<close> of 0.0 is replaced: the \<open>ExchangeRate\<close> of the
  request body is the string "1". In every call the field is the string "1" when the
  rate is \<open>None\<close> or zero, and the number supplied otherwise: a false rate is replaced by
  the default, and the default is a string where a supplied rate is a number.
\<close>

theorem create_invoice_payment_zero_rate:
  "(\<exists>b. sent (snd (create_invoice_payment tr \<lparr>realm_id = Some r, access_token = Some t\<rparr>
             invoice_id customer_id amount date qbo_account_id currency (Some 0) private_note
             w)) =
         sent w @ [\<lparr>path = ''/payment'', http_method = ''POST'', body = Some (JObj b),
                    req_access_token = t, req_realm_id = r\<rparr>]
       \<and> map_of b ''ExchangeRate'' = Some (JStr ''1''))
   \<and> (\<exists>b. sent (snd (create_invoice_payment tr \<lparr>realm_id = Some r, access_token = Some t\<rparr>
             invoice_id customer_id amount date qbo_account_id currency exchange_rate
             private_note w)) =
         sent w @ [\<lparr>path = ''/payment'', http_method = ''POST'', body = Some (JObj b),
                    req_access_token = t, req_realm_id = r\<rparr>]
       \<and> map_of b ''ExchangeRate'' =
           Some (case exchange_rate of
                   None \<Rightarrow> JStr ''1''
                 | Some x \<Rightarrow> if x = 0 then JStr ''1'' else JNum x))"
  by (simp add: sent_create_invoice_payment create_invoice_payment_body_eq)


section \<open>Settings file\<close>

lemma snake_to_camel_fields:
  "snake_to_camel ''stripe_clearing_account_id'' = ''stripeClearingAccountId''"
  "snake_to_camel ''stripe_payout_account_id'' = ''stripePayoutAccountId''"
  "snake_to_camel ''stripe_fee_account_id'' = ''stripeFeeAccountId''"
  "snake_to_camel ''stripe_vendor_id'' = ''stripeVendorId''"
  "snake_to_camel ''default_income_account_id'' = ''defaultIncomeAccountId''"
  "snake_to_camel ''default_tax_code_id'' = ''defaultTaxCodeId''"
  "snake_to_camel ''exempt_tax_code_id'' = ''exemptTaxCodeId''"
  by code_simp+

text \<open>What \<open>save\<close> wrote is read back by \<open>load_from_file\<close>, through the field names.\<close>

lemma load_from_file_save: "load_from_file (save s p fs) p = Inr (Some s)"
  by (cases "default_income_account_id s")
     (simp_all add: load_from_file_def save_def Settings_model_dump_def Settings_init_def
      bind_e_def settings_str_def settings_opt_str_def settings_input_def
      snake_to_camel_fields opt_str_def)

text \<open>
  Claim C9, as stated: \<open>save\<close> writes the camel-cased key names, \<open>stripe_vendor_id\<close> stored
  as \<open>stripeVendorId\<close>. The code does otherwise: the object written has the field names
  as its keys, it has no key \<open>stripeVendorId\<close>, and the vendor id is under
  \<open>stripe_vendor_id\<close>.
\<close>

theorem save_writes_field_names:
  "save \<lparr>stripe_clearing_account_id = ''91'', stripe_payout_account_id = ''92'',
         stripe_fee_account_id = ''93'', stripe_vendor_id = ''57'',
         default_income_account_id = None, default_tax_code_id = ''TAX'',
         exempt_tax_code_id = ''NON''\<rparr> ''settings.json'' Map.empty ''settings.json''
     = Some (JsonFile (JObj
         [(''stripe_clearing_account_id'', JStr ''91''),
          (''stripe_payout_account_id'', JStr ''92''),
          (''stripe_fee_account_id'', JStr ''93''),
          (''stripe_vendor_id'', JStr ''57''),
          (''default_income_account_id'', JNull),
          (''default_tax_code_id'', JStr ''TAX''),
          (''exempt_tax_code_id'', JStr ''NON'')]))
   \<and> snake_to_camel ''stripe_vendor_id'' = ''stripeVendorId''
   \<and> py_contains ''stripeVendorId''
         (Settings_model_dump
            \<lparr>stripe_clearing_account_id = ''91'', stripe_payout_account_id = ''92'',
             stripe_fee_account_id = ''93'', stripe_vendor_id = ''57'',
             default_income_account_id = None, default_tax_code_id = ''TAX'',
             exempt_tax_code_id = ''NON''\<rparr>) = Inr False"
  by (simp add: save_def Settings_model_dump_def snake_to_camel_fields py_contains_def
      opt_str_def)

text \<open>
  Claim C9, amended. For every \<open>Settings\<close> value, \<open>save\<close> writes at the path a flat JSON
  object whose keys are the configuration-key names as declared (snake case, such as
  \<open>stripe_vendor_id\<close>), each mapped to its identifier, the unset optional one to null; and
  \<open>load_from_file\<close> returns no settings when the file is absent.
\<close>

theorem save_and_load_settings:
  "save s p fs p = Some (JsonFile (JObj
      [(''stripe_clearing_account_id'', JStr (stripe_clearing_account_id s)),
       (''stripe_payout_account_id'', JStr (stripe_payout_account_id s)),
       (''stripe_fee_account_id'', JStr (stripe_fee_account_id s)),
       (''stripe_vendor_id'', JStr (stripe_vendor_id s)),
       (''default_income_account_id'',
          (case default_income_account_id s of None \<Rightarrow> JNull | Some x \<Rightarrow> JStr x)),
       (''default_tax_code_id'', JStr (default_tax_code_id s)),
       (''exempt_tax_code_id'', JStr (exempt_tax_code_id s))]))
   \<and> (fs p = None \<longrightarrow> load_from_file fs p = Inr None)"
  by (simp add: save_def Settings_model_dump_def load_from_file_def opt_str_def)

theorem save_and_load_settings_witness:
  "Map.empty ''settings.json'' = (None :: file_content option)
   \<and> load_from_file Map.empty ''settings.json'' = Inr None"
  using save_and_load_settings
          [of "\<lparr>stripe_clearing_account_id = ''91'', stripe_payout_account_id = ''92'',
                stripe_fee_account_id = ''93'', stripe_vendor_id = ''57'',
                default_income_account_id = None, default_tax_code_id = ''TAX'',
                exempt_tax_code_id = ''NON''\<rparr>"
              "''settings.json''" Map.empty]
  by simp


section \<open>Responses of the create operations\<close>

lemma fst_after: "fst (after m f) = bind_e (fst m) f"
  by (simp add: after_def bind_e_def split: prod.splits sum.splits)

lemma fst_request_responding:
  "fst (QBO_request (responding f j) \<lparr>realm_id = Some r, access_token = Some t\<rparr> p m b w) = Inr j"
  by (simp add: QBO_request_set responding_def)

lemma envelope_id_iff:
  "(bind_e (Inr j) (\<lambda>j. bind_e (py_getitem j key) (\<lambda>e. py_getitem e ''Id'')) = Inr i) =
   (\<exists>kv e. j = JObj kv \<and> map_of kv key = Some (JObj e) \<and> map_of e ''Id'' = Some i)"
  by (auto simp: bind_e_def py_getitem_def split: json.splits option.splits)

lemma create_customer_missing:
  "py_contains ''Customer'' j = Inr False \<Longrightarrow>
   fst (create_customer (responding f j) \<lparr>realm_id = Some r, access_token = Some t\<rparr> nm cur w) =
     Inl (Exception ''Error creating customer: '' (Some j))"
  by (simp add: create_customer_def fst_after fst_request_responding bind_e_def)

lemma create_customer_iff:
  "(fst (create_customer (responding f j) \<lparr>realm_id = Some r, access_token = Some t\<rparr> nm cur w)
      = Inr cu) =
   (\<exists>kv e. j = JObj kv \<and> map_of kv ''Customer'' = Some e \<and> Customer_init e = Inr cu)"
  by (auto simp: create_customer_def fst_after fst_request_responding bind_e_def
      py_contains_def py_getitem_def map_of_eq_None_iff [symmetric]
      split: json.splits option.splits)

lemma create_item_iff:
  "(fst (create_item (responding f j) \<lparr>realm_id = Some r, access_token = Some t\<rparr> nm acct w)
      = Inr it) =
   (\<exists>kv e i n. j = JObj kv \<and> map_of kv ''Item'' = Some (JObj e) \<and> map_of e ''Id'' = Some i
       \<and> map_of e ''Name'' = Some n \<and> ItemRef_init i n = Inr it)"
  by (auto simp: create_item_def fst_after fst_request_responding bind_e_def py_getitem_def
      split: json.splits option.splits)

lemma create_account_iff:
  "(fst (create_account (responding f j) \<lparr>realm_id = Some r, access_token = Some t\<rparr> nm ty w)
      = Inr i) =
   (\<exists>kv e. j = JObj kv \<and> map_of kv ''Account'' = Some (JObj e) \<and> map_of e ''Id'' = Some i)"
  by (simp add: create_account_def fst_after fst_request_responding envelope_id_iff)

lemma create_invoice_iff:
  "(fst (create_invoice (responding f j) \<lparr>realm_id = Some r, access_token = Some t\<rparr> customer_id
        lines created_date currency private_note due_date txn_date tax_detail inv_number w)
      = Inr i) =
   (\<exists>kv e. j = JObj kv \<and> map_of kv ''Invoice'' = Some (JObj e) \<and> map_of e ''Id'' = Some i)"
  by (simp add: create_invoice_def fst_after fst_request_responding envelope_id_iff)

lemma create_invoice_payment_iff:
  "(fst (create_invoice_payment (responding f j) \<lparr>realm_id = Some r, access_token = Some t\<rparr>
        invoice_id customer_id amount date qbo_account_id currency exchange_rate private_note w)
      = Inr i) =
   (\<exists>kv e. j = JObj kv \<and> map_of kv ''Payment'' = Some (JObj e) \<and> map_of e ''Id'' = Some i)"
  by (simp add: create_invoice_payment_def fst_after fst_request_responding envelope_id_iff)

lemma create_expense_iff:
  "(fst (create_expense (responding f j) \<lparr>realm_id = Some r, access_token = Some t\<rparr>
        amount date bank_account_id vendor_id expense_account_id private_note description w)
      = Inr i) =
   (\<exists>kv e. j = JObj kv \<and> map_of kv ''Purchase'' = Some (JObj e) \<and> map_of e ''Id'' = Some i)"
  by (simp add: create_expense_def fst_after fst_request_responding envelope_id_iff)

lemma create_transfer_iff:
  "(fst (create_transfer (responding f j) \<lparr>realm_id = Some r, access_token = Some t\<rparr>
        amount date source_account_id destination_account_id private_note w)
      = Inr i) =
   (\<exists>kv e. j = JObj kv \<and> map_of kv ''Transfer'' = Some (JObj e) \<and> map_of e ''Id'' = Some i)"
  by (simp add: create_transfer_def fst_after fst_request_responding envelope_id_iff)

text \<open>
  Claim C4, as stated: a create operation succeeds exactly when the envelope key is
  present, and fails with an error that includes the raw response when it is absent. The
  code does otherwise on both counts. A response \<open>{"Customer": {}}\<close> has the envelope key,
  and \<open>create_customer\<close> fails on it, with the validation error of the empty customer. A
  fault response has no \<open>Item\<close> key, and \<open>create_item\<close> fails on it with the \<open>KeyError\<close> of
  the subscript, which carries the key and not the response.
\<close>

theorem create_envelope_not_exact:
  "py_contains ''Customer'' (JObj [(''Customer'', JObj [])]) = Inr True
   \<and> fst (create_customer (responding (\<lambda>s rq. s) (JObj [(''Customer'', JObj [])]))
            \<lparr>realm_id = Some ''4620816365'', access_token = Some ''tok''\<rparr> ''Acme Corp'' ''USD''
            \<lparr>remote = (), sent = []\<rparr>)
       = Inl ValidationError
   \<and> py_contains ''Item'' (JObj [(''Fault'', JObj [(''type'', JStr ''ValidationFault'')])])
       = Inr False
   \<and> fst (create_item
            (responding (\<lambda>s rq. s) (JObj [(''Fault'', JObj [(''type'', JStr ''ValidationFault'')])]))
            \<lparr>realm_id = Some ''4620816365'', access_token = Some ''tok''\<rparr> ''Subscription'' ''79''
            \<lparr>remote = (), sent = []\<rparr>)
       = Inl (KeyError ''Item'')"
  by (simp add: create_customer_def create_item_def fst_after fst_request_responding bind_e_def
      py_contains_def py_getitem_def Customer_init_def str_field_def)

text \<open>
  Claim C4, amended. Let the transport call of a create operation succeed with the
  response \<open>j\<close>. If \<open>j\<close> lacks the key \<open>Customer\<close>, \<open>create_customer\<close> fails with the
  exception "Error creating customer" that carries \<open>j\<close>. Each of the seven create
  operations succeeds exactly when \<open>j\<close> is an object that has the operation's envelope key
  and the entity under it is well formed, and then returns that entity or its \<open>Id\<close>:
  for \<open>create_customer\<close> the entity validates as a \<open>Customer\<close>; for \<open>create_item\<close> it is an
  object whose \<open>Id\<close> and \<open>Name\<close> validate as an \<open>ItemRef\<close>; for the other five it is an
  object with an \<open>Id\<close>. So with the envelope key absent every one of them fails.
\<close>

theorem create_response_envelope:
  "(py_contains ''Customer'' j = Inr False \<longrightarrow>
      fst (create_customer (responding f j) \<lparr>realm_id = Some r, access_token = Some t\<rparr>
             customer_name currency w)
        = Inl (Exception ''Error creating customer: '' (Some j)))
   \<and> (fst (create_customer (responding f j) \<lparr>realm_id = Some r, access_token = Some t\<rparr>
             customer_name currency w) = Inr cu) =
       (\<exists>kv e. j = JObj kv \<and> map_of kv ''Customer'' = Some e \<and> Customer_init e = Inr cu)
   \<and> (fst (create_item (responding f j) \<lparr>realm_id = Some r, access_token = Some t\<rparr>
             item_name account_id w) = Inr it) =
       (\<exists>kv e i n. j = JObj kv \<and> map_of kv ''Item'' = Some (JObj e) \<and> map_of e ''Id'' = Some i
          \<and> map_of e ''Name'' = Some n \<and> ItemRef_init i n = Inr it)
   \<and> (fst (create_account (responding f j) \<lparr>realm_id = Some r, access_token = Some t\<rparr>
             account_name account_type w) = Inr i1) =
       (\<exists>kv e. j = JObj kv \<and> map_of kv ''Account'' = Some (JObj e) \<and> map_of e ''Id'' = Some i1)
   \<and> (fst (create_invoice (responding f j) \<lparr>realm_id = Some r, access_token = Some t\<rparr>
             customer_id lines created_date cur private_note due_date txn_date tax_detail
             inv_number w) = Inr i2) =
       (\<exists>kv e. j = JObj kv \<and> map_of kv ''Invoice'' = Some (JObj e) \<and> map_of e ''Id'' = Some i2)
   \<and> (fst (create_invoice_payment (responding f j)
             \<lparr>realm_id = Some r, access_token = Some t\<rparr> invoice_id customer_id amount date
             qbo_account_id currency exchange_rate note w) = Inr i3) =
       (\<exists>kv e. j = JObj kv \<and> map_of kv ''Payment'' = Some (JObj e) \<and> map_of e ''Id'' = Some i3)
   \<and> (fst (create_expense (responding f j) \<lparr>realm_id = Some r, access_token = Some t\<rparr>
             amount date bank_account_id vendor_id expense_account_id note description w)
         = Inr i4) =
       (\<exists>kv e. j = JObj kv \<and> map_of kv ''Purchase'' = Some (JObj e) \<and> map_of e ''Id'' = Some i4)
   \<and> (fst (create_transfer (responding f j) \<lparr>realm_id = Some r, access_token = Some t\<rparr>
             amount date source_account_id destination_account_id note w) = Inr i5) =
       (\<exists>kv e. j = JObj kv \<and> map_of kv ''Transfer'' = Some (JObj e) \<and> map_of e ''Id'' = Some i5)"
  using create_customer_missing [of j f r t customer_name currency w]
  by (simp only: create_customer_iff create_item_iff create_account_iff create_invoice_iff
      create_invoice_payment_iff create_expense_iff create_transfer_iff) simp

theorem create_response_envelope_witness:
  "py_contains ''Customer'' (JObj [(''Fault'', JObj [(''type'', JStr ''ValidationFault'')])])
     = Inr False
   \<and> fst (create_customer
            (responding (\<lambda>s rq. s) (JObj [(''Fault'', JObj [(''type'', JStr ''ValidationFault'')])]))
            \<lparr>realm_id = Some ''4620816365'', access_token = Some ''tok''\<rparr> ''Acme Corp'' ''USD''
            \<lparr>remote = (), sent = []\<rparr>)
       = Inl (Exception ''Error creating customer: ''
                (Some (JObj [(''Fault'', JObj [(''type'', JStr ''ValidationFault'')])])))"
proof -
  have h: "py_contains ''Customer''
             (JObj [(''Fault'', JObj [(''type'', JStr ''ValidationFault'')])]) = Inr False"
    by (simp add: py_contains_def)
  show ?thesis
    using h create_response_envelope
            [of "JObj [(''Fault'', JObj [(''type'', JStr ''ValidationFault'')])]"
                "\<lambda>s rq. s" "''4620816365''" "''tok''" "''Acme Corp''" "''USD''"
                "\<lparr>remote = (), sent = []\<rparr>", THEN conjunct1]
    by simp
qed


section \<open>Account lookup: none, one or several matches\<close>

lemma getitem_contains: "py_getitem j k = Inr v \<Longrightarrow> py_contains k j = Inr True"
  by (cases j)
     (auto simp: py_getitem_def py_contains_def domIff dom_map_of_conv_image_fst [symmetric]
      split: option.splits)

lemma QBO_query_ok:
  assumes "tr (remote w) \<lparr>path = ''/query?query='' @ q, http_method = ''GET'', body = None,
                req_access_token = t, req_realm_id = r\<rparr> = (s, Inr j)"
      and "py_getitem j ''QueryResponse'' = Inr qr"
  shows "QBO_query tr \<lparr>realm_id = Some r, access_token = Some t\<rparr> q w =
           (Inr j, \<lparr>remote = s, sent = sent w @
              [\<lparr>path = ''/query?query='' @ q, http_method = ''GET'', body = None,
                req_access_token = t, req_realm_id = r\<rparr>]\<rparr>)"
  using assms(1) getitem_contains [OF assms(2)]
  by (simp add: QBO_query_def QBO_request_set)

text \<open>
  Claim C6. Let the transport answer the account query with a response whose
  \<open>QueryResponse\<close> lists the accounts \<open>found\<close> (an absent \<open>Account\<close> key lists none).
  With more than one account found, \<open>get_account_id\<close> and \<open>get_or_create_account\<close> fail
  with the exception "Multiple accounts found with" the name, and the query is the only
  request sent: no account is created. With exactly one account found,
  \<open>get_account_id\<close> returns its \<open>Id\<close>. With none found, \<open>get_or_create_account\<close> goes on
  to \<open>create_account\<close>: after the query it posts the account's name and type to
  \<open>/account\<close>.
\<close>

theorem get_account_id_cases:
  assumes "tr (remote w)
             \<lparr>path = ''/query?query='' @ ''select * from Account where Name = '' @
                       quoted account_name,
              http_method = ''GET'', body = None, req_access_token = t, req_realm_id = r\<rparr>
           = (s, Inr j)"
      and "py_getitem j ''QueryResponse'' = Inr qr"
      and "py_get_list qr ''Account'' = Inr (JArr found)"
  shows "(1 < length found \<longrightarrow>
            get_account_id tr \<lparr>realm_id = Some r, access_token = Some t\<rparr> account_name w =
              (Inl (Exception (''Multiple accounts found with '' @ account_name) None),
               \<lparr>remote = s, sent = sent w @
                 [\<lparr>path = ''/query?query=select * from Account where Name = '' @
                           quoted account_name,
                   http_method = ''GET'', body = None, req_access_token = t,
                   req_realm_id = r\<rparr>]\<rparr>)
          \<and> get_or_create_account tr \<lparr>realm_id = Some r, access_token = Some t\<rparr> account_name
              account_type w =
              (Inl (Exception (''Multiple accounts found with '' @ account_name) None),
               \<lparr>remote = s, sent = sent w @
                 [\<lparr>path = ''/query?query=select * from Account where Name = '' @
                           quoted account_name,
                   http_method = ''GET'', body = None, req_access_token = t,
                   req_realm_id = r\<rparr>]\<rparr>))
       \<and> (\<forall>a i. found = [JObj a] \<and> map_of a ''Id'' = Some i \<longrightarrow>
            get_account_id tr \<lparr>realm_id = Some r, access_token = Some t\<rparr> account_name w =
              (Inr i,
               \<lparr>remote = s, sent = sent w @
                 [\<lparr>path = ''/query?query=select * from Account where Name = '' @
                           quoted account_name,
                   http_method = ''GET'', body = None, req_access_token = t,
                   req_realm_id = r\<rparr>]\<rparr>))
       \<and> (found = [] \<longrightarrow>
            get_or_create_account tr \<lparr>realm_id = Some r, access_token = Some t\<rparr> account_name
              account_type w =
            create_account tr \<lparr>realm_id = Some r, access_token = Some t\<rparr> account_name
              account_type
              \<lparr>remote = s, sent = sent w @
                 [\<lparr>path = ''/query?query=select * from Account where Name = '' @
                           quoted account_name,
                   http_method = ''GET'', body = None, req_access_token = t,
                   req_realm_id = r\<rparr>]\<rparr>
          \<and> sent (snd (get_or_create_account tr \<lparr>realm_id = Some r, access_token = Some t\<rparr>
                          account_name account_type w)) =
              sent w @
                 [\<lparr>path = ''/query?query=select * from Account where Name = '' @
                           quoted account_name,
                   http_method = ''GET'', body = None, req_access_token = t,
                   req_realm_id = r\<rparr>,
                  \<lparr>path = ''/account'', http_method = ''POST'',
                   body = Some (JObj [(''Name'', JStr account_name),
                                      (''AccountType'', JStr account_type)]),
                   req_access_token = t, req_realm_id = r\<rparr>])"
proof -
  have q: "QBO_query tr \<lparr>realm_id = Some r, access_token = Some t\<rparr>
             (''select * from Account where Name = '' @ quoted account_name) w =
           (Inr j, \<lparr>remote = s, sent = sent w @
              [\<lparr>path = ''/query?query='' @ ''select * from Account where Name = '' @
                        quoted account_name,
                http_method = ''GET'', body = None, req_access_token = t,
                req_realm_id = r\<rparr>]\<rparr>)"
    using assms(1,2) by (rule QBO_query_ok)
  have e: "query_entities j ''Account'' = Inr (JArr found, length found)"
    using assms(2,3) by (simp add: query_entities_def bind_e_def py_len_def)
  have g: "get_account_id tr \<lparr>realm_id = Some r, access_token = Some t\<rparr> account_name w =
      ((if length found = 0 then Inr JNull
        else if 1 < length found
          then Inl (Exception (''Multiple accounts found with '' @ account_name) None)
          else bind_e (py_first (JArr found)) (\<lambda>a. py_getitem a ''Id'')),
       \<lparr>remote = s, sent = sent w @
              [\<lparr>path = ''/query?query='' @ ''select * from Account where Name = '' @
                        quoted account_name,
                http_method = ''GET'', body = None, req_access_token = t,
                req_realm_id = r\<rparr>]\<rparr>)"
    unfolding get_account_id_def q after_def by (simp add: e bind_e_def)
  show ?thesis
    unfolding get_or_create_account_def g
    by (auto simp: bind_e_def py_first_def py_getitem_def create_account_def sent_after
        QBO_request_set)
qed


theorem get_account_id_cases_witness:
  "service_request
     \<lparr>customers = [], items = [],
      accounts = [(''35'', ''Stripe Fees''), (''41'', ''Stripe Fees'')], next_id = 42\<rparr>
     \<lparr>path = ''/query?query='' @ ''select * from Account where Name = '' @ quoted ''Stripe Fees'',
      http_method = ''GET'', body = None, req_access_token = ''tok'',
      req_realm_id = ''4620816365''\<rparr>
   = (\<lparr>customers = [], items = [],
       accounts = [(''35'', ''Stripe Fees''), (''41'', ''Stripe Fees'')], next_id = 42\<rparr>,
      Inr (JObj [(''QueryResponse'',
             JObj [(''Account'',
                JArr [JObj [(''Id'', JStr ''35''), (''Name'', JStr ''Stripe Fees'')],
                      JObj [(''Id'', JStr ''41''), (''Name'', JStr ''Stripe Fees'')]])])]))
   \<and> get_or_create_account service_request
        \<lparr>realm_id = Some ''4620816365'', access_token = Some ''tok''\<rparr> ''Stripe Fees'' ''Expense''
        \<lparr>remote = \<lparr>customers = [], items = [],
                    accounts = [(''35'', ''Stripe Fees''), (''41'', ''Stripe Fees'')],
                    next_id = 42\<rparr>,
         sent = []\<rparr>
     = (Inl (Exception ''Multiple accounts found with Stripe Fees'' None),
        \<lparr>remote = \<lparr>customers = [], items = [],
                    accounts = [(''35'', ''Stripe Fees''), (''41'', ''Stripe Fees'')],
                    next_id = 42\<rparr>,
         sent = [\<lparr>path = ''/query?query=select * from Account where Name = '' @
                          quoted ''Stripe Fees'',
                  http_method = ''GET'', body = None, req_access_token = ''tok'',
                  req_realm_id = ''4620816365''\<rparr>]\<rparr>)"
proof -
  let ?s = "\<lparr>customers = [], items = [],
             accounts = [(''35'', ''Stripe Fees''), (''41'', ''Stripe Fees'')], next_id = 42\<rparr>"
  let ?found = "[JObj [(''Id'', JStr ''35''), (''Name'', JStr ''Stripe Fees'')],
                 JObj [(''Id'', JStr ''41''), (''Name'', JStr ''Stripe Fees'')]]"
  let ?qr = "JObj [(''Account'', JArr ?found)]"
  let ?j = "JObj [(''QueryResponse'', ?qr)]"
  have h1: "service_request ?s
     \<lparr>path = ''/query?query='' @ ''select * from Account where Name = '' @ quoted ''Stripe Fees'',
      http_method = ''GET'', body = None, req_access_token = ''tok'',
      req_realm_id = ''4620816365''\<rparr> = (?s, Inr ?j)"
    by (simp add: service_request_def service_query_def entity_list_def named_json_def quoted_def)
  have h2: "py_getitem ?j ''QueryResponse'' = Inr ?qr"
    by (simp add: py_getitem_def)
  have h3: "py_get_list ?qr ''Account'' = Inr (JArr ?found)"
    by (simp add: py_get_list_def)
  have "remote \<lparr>remote = ?s, sent = []\<rparr> = ?s" by simp
  from get_account_id_cases [of service_request "\<lparr>remote = ?s, sent = []\<rparr>" "''Stripe Fees''"
         "''tok''" "''4620816365''" ?s ?j ?qr ?found "''Expense''", simplified this, OF h1 h2 h3]
  show ?thesis using h1 by simp
qed


section \<open>The get-or-create operations against the reference service\<close>

lemma quoted_eq [simp]: "(quoted a = quoted b) = (a = b)"
  by (simp add: quoted_def)

lemma service_request_query:
  "service_request s \<lparr>path = ''/query?query='' @ q, http_method = ''GET'', body = b,
      req_access_token = t, req_realm_id = r\<rparr> = (s, Inr (service_query s q))"
  by (simp add: service_request_def)

lemma QBO_query_service:
  "QBO_query service_request \<lparr>realm_id = Some r, access_token = Some t\<rparr> q w =
     (Inr (service_query (remote w) q),
      w\<lparr>sent := sent w @ [\<lparr>path = ''/query?query='' @ q, http_method = ''GET'', body = None,
                             req_access_token = t, req_realm_id = r\<rparr>]\<rparr>)"
  by (simp add: QBO_query_def QBO_request_set service_request_query [simplified]
      service_query_def py_contains_def)

lemma entities_customer:
  "query_entities (service_query s (''select * from Customer where DisplayName = '' @ quoted n))
     ''Customer'' =
   Inr (JArr (map Customer_json (filter (\<lambda>cu. DisplayName cu = n) (customers s))),
        length (filter (\<lambda>cu. DisplayName cu = n) (customers s)))"
  by (simp add: query_entities_def service_query_def bind_e_def py_getitem_def py_get_list_def
      py_len_def entity_list_def eq_commute [of n])

lemma entities_item:
  "query_entities (service_query s (''select * from Item where Name = '' @ quoted n)) ''Item'' =
   Inr (JArr (map named_json (filter (\<lambda>e. snd e = n) (items s))),
        length (filter (\<lambda>e. snd e = n) (items s)))"
  by (simp add: query_entities_def service_query_def bind_e_def py_getitem_def py_get_list_def
      py_len_def entity_list_def eq_commute [of n])

lemma entities_account:
  "query_entities (service_query s (''select * from Account where Name = '' @ quoted n))
     ''Account'' =
   Inr (JArr (map named_json (filter (\<lambda>e. snd e = n) (accounts s))),
        length (filter (\<lambda>e. snd e = n) (accounts s)))"
  by (simp add: query_entities_def service_query_def bind_e_def py_getitem_def py_get_list_def
      py_len_def entity_list_def eq_commute [of n])

lemmas entities_simps =
  entities_customer [simplified] entities_item [simplified] entities_account [simplified]

lemma Customer_init_json: "Customer_init (Customer_json cu) = Inr cu"
  by (cases "CurrencyRef_name (Customer_CurrencyRef cu)")
     (simp_all add: Customer_init_def Customer_json_def bind_e_def str_field_def obj_field_def
      CurrencyRef_validate_def opt_str_field_def opt_str_def)

lemma get_customer_by_name_service:
  "get_customer_by_name service_request \<lparr>realm_id = Some r, access_token = Some t\<rparr> n w =
     (Inr (case filter (\<lambda>cu. DisplayName cu = n) (customers (remote w)) of
             [] \<Rightarrow> JNull
           | cu # _ \<Rightarrow> Customer_json cu),
      w\<lparr>sent := sent w @
          [\<lparr>path = ''/query?query=select * from Customer where DisplayName = '' @ quoted n,
            http_method = ''GET'', body = None, req_access_token = t, req_realm_id = r\<rparr>]\<rparr>)"
  by (simp add: get_customer_by_name_def QBO_query_service after_def entities_simps bind_e_def
      py_first_def split: list.splits)

lemma create_customer_service:
  "create_customer service_request \<lparr>realm_id = Some r, access_token = Some t\<rparr> n cur w =
     (Inr \<lparr>DisplayName = n, Customer_Id = dec (next_id (remote w)),
           Customer_CurrencyRef = \<lparr>CurrencyRef_value = cur, CurrencyRef_name = Some cur\<rparr>\<rparr>,
      \<lparr>remote = (remote w)\<lparr>customers := customers (remote w) @
                     [\<lparr>DisplayName = n, Customer_Id = dec (next_id (remote w)),
                       Customer_CurrencyRef =
                         \<lparr>CurrencyRef_value = cur, CurrencyRef_name = Some cur\<rparr>\<rparr>],
                   next_id := Suc (next_id (remote w))\<rparr>,
       sent = sent w @
          [\<lparr>path = ''customer'', http_method = ''POST'',
            body = Some (JObj [(''DisplayName'', JStr n),
                               (''CurrencyRef'', JObj [(''value'', JStr cur)])]),
            req_access_token = t, req_realm_id = r\<rparr>]\<rparr>)"
  by (simp add: create_customer_def QBO_request_set service_request_def service_create_def
      endpoint_def Let_def after_def bind_e_def py_contains_def py_getitem_def
      Customer_init_json)

lemma get_or_create_customer_service:
  "get_or_create_customer service_request \<lparr>realm_id = Some r, access_token = Some t\<rparr> n cur w =
     (case filter (\<lambda>cu. DisplayName cu = n) (customers (remote w)) of
        [] \<Rightarrow>
          (Inr (ModelCustomer
                  \<lparr>DisplayName = n, Customer_Id = dec (next_id (remote w)),
                    Customer_CurrencyRef =
                      \<lparr>CurrencyRef_value = cur, CurrencyRef_name = Some cur\<rparr>\<rparr>),
           \<lparr>remote = (remote w)\<lparr>customers := customers (remote w) @
                     [\<lparr>DisplayName = n, Customer_Id = dec (next_id (remote w)),
                       Customer_CurrencyRef =
                         \<lparr>CurrencyRef_value = cur, CurrencyRef_name = Some cur\<rparr>\<rparr>],
                   next_id := Suc (next_id (remote w))\<rparr>,
            sent = sent w @
              [\<lparr>path = ''/query?query=select * from Customer where DisplayName = '' @ quoted n,
                http_method = ''GET'', body = None, req_access_token = t, req_realm_id = r\<rparr>,
               \<lparr>path = ''customer'', http_method = ''POST'',
                body = Some (JObj [(''DisplayName'', JStr n),
                                   (''CurrencyRef'', JObj [(''value'', JStr cur)])]),
                req_access_token = t, req_realm_id = r\<rparr>]\<rparr>)
      | cu # _ \<Rightarrow>
          (Inr (RawCustomer (Customer_json cu)),
           w\<lparr>sent := sent w @
              [\<lparr>path = ''/query?query=select * from Customer where DisplayName = '' @ quoted n,
                http_method = ''GET'', body = None, req_access_token = t,
                req_realm_id = r\<rparr>]\<rparr>))"
  by (simp add: get_or_create_customer_def get_customer_by_name_service create_customer_service
      Customer_json_def split: list.splits)








text \<open>Whatever the lookup finds is returned as it is, whatever the requested currency.\<close>

lemma get_or_create_customer_found:
  "get_customer_by_name tr c n w = (Inr cu, w1) \<Longrightarrow> cu \<noteq> JNull \<Longrightarrow>
   get_or_create_customer tr c n cur w = (Inr (RawCustomer cu), w1)"
  by (simp add: get_or_create_customer_def)

text \<open>
  Claim C1. A customer named "Acme Corp" exists with the currency USD: the lookup by name
  answers with it. \<open>get_or_create_customer\<close> is called for "Acme Corp" in EUR. The claim
  asks for a new customer "Acme Corp (EUR)" in EUR. The code returns the existing USD
  customer, as the raw value of the lookup, and the query is the only request it sends: no
  customer is created. The currency comparison sits inside the branch taken when the
  lookup found nothing.
\<close>

theorem get_or_create_customer_other_currency:
  "get_or_create_customer
     (responding (\<lambda>s rq. s)
        (JObj [(''QueryResponse'',
                JObj [(''Customer'',
                       JArr [JObj [(''DisplayName'', JStr ''Acme Corp''),
                                   (''Id'', JStr ''58''),
                                   (''CurrencyRef'',
                                      JObj [(''value'', JStr ''USD''),
                                            (''name'', JStr ''United States Dollar'')])]])])]))
     \<lparr>realm_id = Some ''4620816365'', access_token = Some ''tok''\<rparr> ''Acme Corp'' ''EUR''
     \<lparr>remote = (), sent = []\<rparr>
   = (Inr (RawCustomer
            (JObj [(''DisplayName'', JStr ''Acme Corp''),
                   (''Id'', JStr ''58''),
                   (''CurrencyRef'',
                      JObj [(''value'', JStr ''USD''),
                            (''name'', JStr ''United States Dollar'')])])),
      \<lparr>remote = (),
       sent = [\<lparr>path = ''/query?query=select * from Customer where DisplayName = '' @
                        quoted ''Acme Corp'',
                http_method = ''GET'', body = None, req_access_token = ''tok'',
                req_realm_id = ''4620816365''\<rparr>]\<rparr>)"
  by (simp add: get_or_create_customer_def get_customer_by_name_def QBO_query_def
      QBO_request_set responding_def after_def query_entities_def bind_e_def py_contains_def
      py_getitem_def py_get_list_def py_len_def py_first_def)

text \<open>The same call against the reference service: the service is left as it was.\<close>

lemma get_or_create_customer_other_currency_service:
  "get_or_create_customer service_request
     \<lparr>realm_id = Some ''4620816365'', access_token = Some ''tok''\<rparr> ''Acme Corp'' ''EUR''
     \<lparr>remote = \<lparr>customers =
                   [\<lparr>DisplayName = ''Acme Corp'', Customer_Id = ''58'',
                     Customer_CurrencyRef =
                       \<lparr>CurrencyRef_value = ''USD'', CurrencyRef_name = Some ''USD''\<rparr>\<rparr>],
                 items = [], accounts = [], next_id = 59\<rparr>,
      sent = []\<rparr>
   = (Inr (RawCustomer
            (JObj [(''DisplayName'', JStr ''Acme Corp''),
                   (''Id'', JStr ''58''),
                   (''CurrencyRef'',
                      JObj [(''value'', JStr ''USD''), (''name'', JStr ''USD'')])])),
      \<lparr>remote = \<lparr>customers =
                   [\<lparr>DisplayName = ''Acme Corp'', Customer_Id = ''58'',
                     Customer_CurrencyRef =
                       \<lparr>CurrencyRef_value = ''USD'', CurrencyRef_name = Some ''USD''\<rparr>\<rparr>],
                  items = [], accounts = [], next_id = 59\<rparr>,
       sent = [\<lparr>path = ''/query?query=select * from Customer where DisplayName = '' @
                        quoted ''Acme Corp'',
                http_method = ''GET'', body = None, req_access_token = ''tok'',
                req_realm_id = ''4620816365''\<rparr>]\<rparr>)"
  by (simp add: get_or_create_customer_service Customer_json_def opt_str_def)



end
